theory Spec2Isabelle
  imports Main "HOL-Library.List_Lexorder" "HOL-Library.Char_ord" "HOL-Library.Product_Lexorder"
begin

section \<open>The abssas replica client (src/abssas/replica\_sasclient.go)\<close>

text \<open>
  A shallow embedding of the Azure Blob Storage (SAS URL) replica client of litestream.
  Go strings are byte strings (\<open>string\<close>, a \<open>char list\<close>); Go's \<open>int\<close> and \<open>int64\<close> values
  are only stored and handed on by this file (the one sum is the byte count of an upload,
  far below \<open>2 ^ 63\<close>), so they are \<open>int\<close>.
  A Go \<open>error\<close> result is an \<open>error option\<close> (\<open>None\<close> is \<open>nil\<close>); a \<open>(value, error)\<close> result is
  a sum with the error on the left.
\<close>

subsection \<open>Errors\<close>

text \<open>
  The error values the file builds or inspects. \<open>StorageError code\<close> is a value of azblob's
  \<open>StorageError\<close> interface with its service code; \<open>ErrNotExist\<close> is \<open>os.ErrNotExist\<close>;
  \<open>Errorf f args w\<close> is \<open>fmt.Errorf(f, args..., w)\<close>, kept symbolic: the format string, its
  string operands in order, and the operand of \<open>%w\<close> (the error it wraps) if it has one.
  \<open>OtherError\<close> is any other error (net/url's, the transport's, a cancelled context's).
\<close>

datatype error =
    StorageError string
  | ErrNotExist
  | Errorf string "string list" "error option"
  | OtherError string

definition ServiceCodeBlobNotFound :: string where
  "ServiceCodeBlobNotFound = ''BlobNotFound''"

text \<open>
  \<open>isNotExists\<close> (lines 583-590): a type switch on the error value itself. Only a value of
  type \<open>azblob.StorageError\<close> whose service code is \<open>BlobNotFound\<close> counts; \<open>nil\<close> and every
  other type, also an error that wraps a storage error, take the default branch.
\<close>

fun isNotExists :: "error option \<Rightarrow> bool" where
  "isNotExists (Some (StorageError code)) = (code = ServiceCodeBlobNotFound)"
| "isNotExists _ = False"

text \<open>A call that panics (a nil pointer dereference) does not return.\<close>

datatype 'a outcome = Return 'a | Panic

subsection \<open>Go's strings package, as far as the file calls it\<close>

text \<open>
  \<open>strings.Index s sep\<close>: the position of the first instance of \<open>sep\<close> in \<open>s\<close>.
\<close>

fun Index :: "string \<Rightarrow> string \<Rightarrow> nat option" where
  "Index [] sep = (if sep = [] then Some 0 else None)"
| "Index (c # cs) sep =
     (if take (length sep) (c # cs) = sep then Some 0 else map_option Suc (Index cs sep))"

text \<open>
  \<open>strings.Split s sep\<close> is \<open>genSplit(s, sep, 0, -1)\<close>: with an empty separator the string is
  exploded into its characters (bytes here; Go explodes into UTF-8 sequences); otherwise
  the loop cuts \<open>s\<close> at the first instance of \<open>sep\<close>, at most \<open>Count(s, sep)\<close> times, and the
  rest of \<open>s\<close> is the last piece. The loop bound here is \<open>length s\<close>, which \<open>Count\<close> never
  exceeds for a non-empty separator.
\<close>

fun genSplit :: "nat \<Rightarrow> string \<Rightarrow> string \<Rightarrow> string list" where
  "genSplit 0 s sep = [s]"
| "genSplit (Suc n) s sep =
     (case Index s sep of
        None \<Rightarrow> [s]
      | Some m \<Rightarrow> take m s # genSplit n (drop (m + length sep) s) sep)"

definition Split :: "string \<Rightarrow> string \<Rightarrow> string list" where
  "Split s sep = (if sep = [] then map (\<lambda>c. [c]) s else genSplit (length s) s sep)"

definition TrimPrefix :: "string \<Rightarrow> string \<Rightarrow> string" where
  "TrimPrefix s pre = (if take (length pre) s = pre then drop (length pre) s else s)"

fun Join :: "string list \<Rightarrow> string \<Rightarrow> string" where
  "Join [] sep = []"
| "Join [x] sep = x"
| "Join (x # y # ys) sep = x @ sep @ Join (y # ys) sep"

subsection \<open>URLs and the client\<close>

text \<open>
  \<open>url.URL\<close> of net/url, field by field (\<open>User\<close> is the user name and the optional
  password of a \<open>*Userinfo\<close>).
\<close>

record URL =
  Scheme :: string
  Opaque :: string
  User :: "(string \<times> string option) option"
  Host :: string
  Path :: string
  RawPath :: string
  ForceQuery :: bool
  RawQuery :: string
  Fragment :: string
  RawFragment :: string

text \<open>
  The container handle \<open>azblob.ContainerURL\<close>: the URL it was built on and the retry
  option of its pipeline (\<open>TryTimeout\<close>, in nanoseconds; the credential is anonymous).
\<close>

record ContainerURL =
  cu_url :: URL
  cu_TryTimeout :: int

definition NewContainerURL :: "URL \<Rightarrow> int \<Rightarrow> ContainerURL" where
  "NewContainerURL u tryTimeout = \<lparr>cu_url = u, cu_TryTimeout = tryTimeout\<rparr>"

definition Hour :: int where
  "Hour = 3600 * 1000000000"

text \<open>The struct \<open>ReplicaClient\<close> (lines 26-33), without its mutex.\<close>

record ReplicaClient =
  containerURL :: "ContainerURL option"
  container :: string
  path :: string
  sasURL :: string

subsection \<open>Times, positions and info records\<close>

text \<open>
  A \<open>time.Time\<close>: the instant (nanoseconds since the epoch) and the location it is
  presented in. \<open>t.UTC()\<close> is the same instant with the location set to UTC.
\<close>

datatype Location = LocUTC | LocLocal | LocZone string

record Time =
  instant :: int
  location :: Location

definition Time_UTC :: "Time \<Rightarrow> Time" where
  "Time_UTC t = t\<lparr>location := LocUTC\<rparr>"

definition zeroTime :: Time where
  "zeroTime = \<lparr>instant = 0, location = LocUTC\<rparr>"

text \<open>\<open>litestream.Pos\<close>, \<open>litestream.SnapshotInfo\<close> and \<open>litestream.WALSegmentInfo\<close>.\<close>

record Pos =
  p_Generation :: string
  p_Index :: int
  p_Offset :: int

record SnapshotInfo =
  s_Generation :: string
  s_Index :: int
  s_Size :: int
  s_CreatedAt :: Time

record WALSegmentInfo =
  w_Generation :: string
  w_Index :: int
  w_Offset :: int
  w_Size :: int
  w_CreatedAt :: Time

definition zeroSnapshotInfo :: SnapshotInfo where
  "zeroSnapshotInfo = \<lparr>s_Generation = [], s_Index = 0, s_Size = 0, s_CreatedAt = zeroTime\<rparr>"

definition zeroWALSegmentInfo :: WALSegmentInfo where
  "zeroWALSegmentInfo =
     \<lparr>w_Generation = [], w_Index = 0, w_Offset = 0, w_Size = 0, w_CreatedAt = zeroTime\<rparr>"

subsection \<open>The remote store, as the file sees it\<close>

text \<open>
  A listing entry (\<open>azblob.BlobItemInternal\<close>): its name and the two properties the
  iterators read. Both are pointers in azblob (\<open>*int64\<close>, \<open>*time.Time\<close>), so each may be nil.
\<close>

record BlobItem =
  Name :: string
  ContentLength :: "int option"
  CreationTime :: "Time option"

text \<open>
  A listing is what the successive \<open>ListBlobsFlatSegment\<close> calls of one
  \<open>for marker.NotDone()\<close> loop receive. The loop starts from the zero marker, which is
  not done, so it always makes a first call; each call is answered by an error
  (\<open>ListError\<close>), by a page whose next marker is done (\<open>LastPage\<close>: the loop ends), or by a
  page whose next marker is not done, after which the loop calls again (\<open>Page\<close>). The
  answers are those that the calls get, whatever the state of their context.
\<close>

datatype listing =
    ListError error
  | LastPage "BlobItem list"
  | Page "BlobItem list" listing

record DownloadResponse =
  dr_ContentLength :: int
  dr_Body :: string

text \<open>
  \<open>azblob.UploadStreamToBlockBlob\<close> reads its source through the \<open>io.Reader\<close> interface
  only. Its behaviour is a tree: it either finishes, with its error result and the new
  state of the store, or asks for a \<open>Read\<close> into a buffer of some size and goes on from the
  bytes and the end-of-file flag that the read delivers.
\<close>

datatype 'st upload =
    Finish "error option" 'st
  | ReadCall nat "string \<Rightarrow> bool \<Rightarrow> 'st upload"

text \<open>
  Everything the file imports whose code is not part of it: \<open>url.Parse\<close>; the path
  functions of package litestream; and the single-object calls of azblob on the state
  \<open>'st\<close> of the remote store, each given the container handle and the object's key.
\<close>

record 'st env =
  url_Parse :: "string \<Rightarrow> error + URL"
  GenerationPath :: "string \<Rightarrow> string \<Rightarrow> error + string"
  SnapshotsPath :: "string \<Rightarrow> string \<Rightarrow> error + string"
  SnapshotPath :: "string \<Rightarrow> string \<Rightarrow> int \<Rightarrow> error + string"
  ParseSnapshotPath :: "string \<Rightarrow> error + int"
  WALPath :: "string \<Rightarrow> string \<Rightarrow> error + string"
  WALSegmentPath :: "string \<Rightarrow> string \<Rightarrow> int \<Rightarrow> int \<Rightarrow> error + string"
  ParseWALSegmentPath :: "string \<Rightarrow> error + (int \<times> int)"
  blob_Delete :: "ContainerURL \<Rightarrow> string \<Rightarrow> 'st \<Rightarrow> error option \<times> 'st"
  blob_Download :: "ContainerURL \<Rightarrow> string \<Rightarrow> 'st \<Rightarrow> (error + DownloadResponse) \<times> 'st"
  UploadStreamToBlockBlob :: "ContainerURL \<Rightarrow> string \<Rightarrow> 'st \<Rightarrow> 'st upload"

subsection \<open>Construction and initialisation\<close>

text \<open>\<open>NewReplicaClient\<close> (lines 36-66).\<close>

definition NewReplicaClient :: "'st env \<Rightarrow> string \<Rightarrow> error + ReplicaClient" where
  "NewReplicaClient E sasUrl =
     (case url_Parse E sasUrl of
        Inl err \<Rightarrow> Inl err
      | Inr u \<Rightarrow>
          (let pathParts = Split (TrimPrefix (Path u) ''/'') ''/'' in
           if length pathParts < 1
           then Inl (Errorf ''invalid SAS URL format: missing container name'' [] None)
           else
             Inr \<lparr>containerURL = None,
                  container = pathParts ! 0,
                  path = (if length pathParts > 1 then Join (drop 1 pathParts) ''/'' else []),
                  sasURL = sasUrl\<rparr>))"

text \<open>
  \<open>Init\<close> (lines 74-107): a no-op once the handle is cached; otherwise the stored URL is
  parsed again, its path is replaced by the container's, and the handle built on it is
  cached. The result is the error and the client afterwards.
\<close>

definition Init :: "'st env \<Rightarrow> ReplicaClient \<Rightarrow> error option \<times> ReplicaClient" where
  "Init E c =
     (if containerURL c \<noteq> None then (None, c)
      else
        (case url_Parse E (sasURL c) of
           Inl err \<Rightarrow> (Some (Errorf ''cannot parse SAS URL: %w'' [] (Some err)), c)
         | Inr sasURL' \<Rightarrow>
             (let containerURLStr = sasURL'\<lparr>Path := ''/'' @ container c\<rparr>
              in (None, c\<lparr>containerURL := Some (NewContainerURL containerURLStr (24 * Hour))\<rparr>))))"

subsection \<open>Single-object operations\<close>

text \<open>
  Each operation returns its Go results together with the client and the store
  afterwards. The handle is dereferenced where the source does it; a nil handle there is
  a panic.
\<close>

text \<open>\<open>DeleteSnapshot\<close> (lines 252-271).\<close>

definition DeleteSnapshot ::
  "'st env \<Rightarrow> ReplicaClient \<Rightarrow> string \<Rightarrow> int \<Rightarrow> 'st \<Rightarrow> (error option \<times> ReplicaClient \<times> 'st) outcome"
where
  "DeleteSnapshot E c generation index st =
     (case Init E c of
        (Some err, c') \<Rightarrow> Return (Some err, c', st)
      | (None, c') \<Rightarrow>
          (case SnapshotPath E (path c') generation index of
             Inl err \<Rightarrow>
               Return (Some (Errorf ''cannot determine snapshot path: %w'' [] (Some err)), c', st)
           | Inr key \<Rightarrow>
               (case containerURL c' of
                  None \<Rightarrow> Panic
                | Some h \<Rightarrow>
                    (case blob_Delete E h key st of
                       (err, st') \<Rightarrow>
                         if isNotExists err then Return (None, c', st')
                         else if err \<noteq> None
                         then Return (Some (Errorf ''cannot delete snapshot %q: %w'' [key] err), c', st')
                         else Return (None, c', st')))))"

text \<open>The loop of \<open>DeleteWALSegments\<close> (lines 347-361) over the positions still to do.\<close>

fun deleteWALSegments_loop ::
  "'st env \<Rightarrow> ReplicaClient \<Rightarrow> Pos list \<Rightarrow> 'st \<Rightarrow> (error option \<times> 'st) outcome"
where
  "deleteWALSegments_loop E c [] st = Return (None, st)"
| "deleteWALSegments_loop E c (pos # a) st =
     (case WALSegmentPath E (path c) (p_Generation pos) (p_Index pos) (p_Offset pos) of
        Inl err \<Rightarrow> Return (Some (Errorf ''cannot determine wal segment path: %w'' [] (Some err)), st)
      | Inr key \<Rightarrow>
          (case containerURL c of
             None \<Rightarrow> Panic
           | Some h \<Rightarrow>
               (case blob_Delete E h key st of
                  (err, st') \<Rightarrow>
                    if isNotExists err then deleteWALSegments_loop E c a st'
                    else if err \<noteq> None
                    then Return (Some (Errorf ''cannot delete wal segment %q: %w'' [key] err), st')
                    else deleteWALSegments_loop E c a st')))"

text \<open>\<open>DeleteWALSegments\<close> (lines 342-364).\<close>

definition DeleteWALSegments ::
  "'st env \<Rightarrow> ReplicaClient \<Rightarrow> Pos list \<Rightarrow> 'st \<Rightarrow> (error option \<times> ReplicaClient \<times> 'st) outcome"
where
  "DeleteWALSegments E c a st =
     (case Init E c of
        (Some err, c') \<Rightarrow> Return (Some err, c', st)
      | (None, c') \<Rightarrow>
          (case deleteWALSegments_loop E c' a st of
             Panic \<Rightarrow> Panic
           | Return (err, st') \<Rightarrow> Return (err, c', st')))"

text \<open>The inner loop of \<open>DeleteGeneration\<close> (lines 165-174) over the entries of one page.\<close>

fun deleteGeneration_items ::
  "'st env \<Rightarrow> ContainerURL \<Rightarrow> BlobItem list \<Rightarrow> 'st \<Rightarrow> error option \<times> 'st"
where
  "deleteGeneration_items E h [] st = (None, st)"
| "deleteGeneration_items E h (item # items) st =
     (case blob_Delete E h (Name item) st of
        (err, st') \<Rightarrow>
          if isNotExists err then deleteGeneration_items E h items st'
          else if err \<noteq> None then (err, st')
          else deleteGeneration_items E h items st')"

text \<open>The outer loop of \<open>DeleteGeneration\<close> (lines 154-175) over the listing.\<close>

fun deleteGeneration_pages ::
  "'st env \<Rightarrow> ContainerURL \<Rightarrow> listing \<Rightarrow> 'st \<Rightarrow> error option \<times> 'st"
where
  "deleteGeneration_pages E h (ListError err) st = (Some err, st)"
| "deleteGeneration_pages E h (LastPage items) st = deleteGeneration_items E h items st"
| "deleteGeneration_pages E h (Page items rest) st =
     (case deleteGeneration_items E h items st of
        (Some err, st') \<Rightarrow> (Some err, st')
      | (None, st') \<Rightarrow> deleteGeneration_pages E h rest st')"

text \<open>\<open>DeleteGeneration\<close> (lines 143-180), on the listing of the generation's prefix.\<close>

definition DeleteGeneration ::
  "'st env \<Rightarrow> ReplicaClient \<Rightarrow> string \<Rightarrow> listing \<Rightarrow> 'st \<Rightarrow>
     (error option \<times> ReplicaClient \<times> 'st) outcome"
where
  "DeleteGeneration E c generation l st =
     (case Init E c of
        (Some err, c') \<Rightarrow> Return (Some err, c', st)
      | (None, c') \<Rightarrow>
          (case GenerationPath E (path c') generation of
             Inl err \<Rightarrow>
               Return (Some (Errorf ''cannot determine generation path: %w'' [] (Some err)), c', st)
           | Inr dir \<Rightarrow>
               (case containerURL c' of
                  None \<Rightarrow> Panic
                | Some h \<Rightarrow>
                    (case deleteGeneration_pages E h l st of
                       (err, st') \<Rightarrow> Return (err, c', st')))))"

text \<open>\<open>SnapshotReader\<close> (lines 227-249); the reader it returns is the body's bytes.\<close>

definition SnapshotReader ::
  "'st env \<Rightarrow> ReplicaClient \<Rightarrow> string \<Rightarrow> int \<Rightarrow> 'st \<Rightarrow>
     ((error + string) \<times> ReplicaClient \<times> 'st) outcome"
where
  "SnapshotReader E c generation index st =
     (case Init E c of
        (Some err, c') \<Rightarrow> Return (Inl err, c', st)
      | (None, c') \<Rightarrow>
          (case SnapshotPath E (path c') generation index of
             Inl err \<Rightarrow>
               Return (Inl (Errorf ''cannot determine snapshot path: %w'' [] (Some err)), c', st)
           | Inr key \<Rightarrow>
               (case containerURL c' of
                  None \<Rightarrow> Panic
                | Some h \<Rightarrow>
                    (case blob_Download E h key st of
                       (Inl err, st') \<Rightarrow>
                         if isNotExists (Some err) then Return (Inl ErrNotExist, c', st')
                         else Return
                           (Inl (Errorf ''cannot start new reader for %q: %w'' [key] (Some err)),
                            c', st')
                     | (Inr resp, st') \<Rightarrow> Return (Inr (dr_Body resp), c', st')))))"

text \<open>\<open>WALSegmentReader\<close> (lines 317-339).\<close>

definition WALSegmentReader ::
  "'st env \<Rightarrow> ReplicaClient \<Rightarrow> Pos \<Rightarrow> 'st \<Rightarrow> ((error + string) \<times> ReplicaClient \<times> 'st) outcome"
where
  "WALSegmentReader E c pos st =
     (case Init E c of
        (Some err, c') \<Rightarrow> Return (Inl err, c', st)
      | (None, c') \<Rightarrow>
          (case WALSegmentPath E (path c') (p_Generation pos) (p_Index pos) (p_Offset pos) of
             Inl err \<Rightarrow>
               Return (Inl (Errorf ''cannot determine wal segment path: %w'' [] (Some err)), c', st)
           | Inr key \<Rightarrow>
               (case containerURL c' of
                  None \<Rightarrow> Panic
                | Some h \<Rightarrow>
                    (case blob_Download E h key st of
                       (Inl err, st') \<Rightarrow>
                         if isNotExists (Some err) then Return (Inl ErrNotExist, c', st')
                         else Return
                           (Inl (Errorf ''cannot start new reader for %q: %w'' [key] (Some err)),
                            c', st')
                     | (Inr resp, st') \<Rightarrow> Return (Inr (dr_Body resp), c', st')))))"

subsection \<open>Uploads\<close>

text \<open>
  The source of an upload, \<open>rd\<close>: the bytes it still has. \<open>Read\<close> into a buffer of \<open>k\<close> bytes
  delivers up to \<open>k\<close> of them, and reports the end of the file once none is left.
\<close>

record Reader =
  rd_data :: string

definition Reader_Read :: "Reader \<Rightarrow> nat \<Rightarrow> (string \<times> bool) \<times> Reader" where
  "Reader_Read r k =
     (if rd_data r = [] then (([], True), r)
      else ((take k (rd_data r), False), r\<lparr>rd_data := drop k (rd_data r)\<rparr>))"

text \<open>
  Modelled from the spec: \<open>internal.ReadCounter\<close> (package internal of this repository, not
  under src/), "a counting wrapper around the source" that records the "bytes actually
  transferred": it holds the wrapped reader and the count, every \<open>Read\<close> goes to the wrapped
  reader and adds the number of bytes it delivered, and \<open>N\<close> is the count.
\<close>

record ReadCounter =
  rc_r :: Reader
  rc_n :: int

text \<open>Modelled from the spec: \<open>internal.NewReadCounter\<close>, the wrapper with a count of zero.\<close>

definition NewReadCounter :: "Reader \<Rightarrow> ReadCounter" where
  "NewReadCounter rd = \<lparr>rc_r = rd, rc_n = 0\<rparr>"

text \<open>Modelled from the spec: \<open>ReadCounter.Read\<close>, which counts what the wrapped read delivers.\<close>

definition ReadCounter_Read :: "ReadCounter \<Rightarrow> nat \<Rightarrow> (string \<times> bool) \<times> ReadCounter" where
  "ReadCounter_Read rc k =
     (case Reader_Read (rc_r rc) k of
        ((bs, eof), r') \<Rightarrow> ((bs, eof), \<lparr>rc_r = r', rc_n = rc_n rc + int (length bs)\<rparr>))"

text \<open>Modelled from the spec: \<open>ReadCounter.N\<close>, the number of bytes read so far.\<close>

definition N :: "ReadCounter \<Rightarrow> int" where
  "N rc = rc_n rc"

text \<open>An upload run against the counting reader: every read it asks for goes through it.\<close>

primrec run_upload :: "'st upload \<Rightarrow> ReadCounter \<Rightarrow> error option \<times> 'st \<times> ReadCounter" where
  "run_upload (Finish err st) rc = (err, st, rc)"
| "run_upload (ReadCall k f) rc =
     (case ReadCounter_Read rc k of ((bs, eof), rc') \<Rightarrow> run_upload (f bs eof) rc')"

text \<open>
  \<open>WriteSnapshot\<close> (lines 191-224). \<open>now\<close> is what \<open>time.Now()\<close> returns at line 200. The
  results are \<open>info\<close> and \<open>err\<close>, then the client, the store and the source afterwards;
  \<open>info\<close> is the zero value on every error return.
\<close>

definition WriteSnapshot ::
  "'st env \<Rightarrow> ReplicaClient \<Rightarrow> string \<Rightarrow> int \<Rightarrow> Reader \<Rightarrow> Time \<Rightarrow> 'st \<Rightarrow>
     (SnapshotInfo \<times> error option \<times> ReplicaClient \<times> 'st \<times> Reader) outcome"
where
  "WriteSnapshot E c generation index rd now st =
     (case Init E c of
        (Some err, c') \<Rightarrow> Return (zeroSnapshotInfo, Some err, c', st, rd)
      | (None, c') \<Rightarrow>
          (case SnapshotPath E (path c') generation index of
             Inl err \<Rightarrow>
               Return (zeroSnapshotInfo,
                 Some (Errorf ''cannot determine snapshot path: %w'' [] (Some err)), c', st, rd)
           | Inr key \<Rightarrow>
               (let startTime = now; rc = NewReadCounter rd in
                case containerURL c' of
                  None \<Rightarrow> Panic
                | Some h \<Rightarrow>
                    (case run_upload (UploadStreamToBlockBlob E h key st) rc of
                       (err, st', rc') \<Rightarrow>
                         if err \<noteq> None then Return (zeroSnapshotInfo, err, c', st', rc_r rc')
                         else Return
                           (\<lparr>s_Generation = generation, s_Index = index, s_Size = N rc',
                             s_CreatedAt = Time_UTC startTime\<rparr>,
                            None, c', st', rc_r rc')))))"

text \<open>\<open>WriteWALSegment\<close> (lines 282-313).\<close>

definition WriteWALSegment ::
  "'st env \<Rightarrow> ReplicaClient \<Rightarrow> Pos \<Rightarrow> Reader \<Rightarrow> Time \<Rightarrow> 'st \<Rightarrow>
     (WALSegmentInfo \<times> error option \<times> ReplicaClient \<times> 'st \<times> Reader) outcome"
where
  "WriteWALSegment E c pos rd now st =
     (case Init E c of
        (Some err, c') \<Rightarrow> Return (zeroWALSegmentInfo, Some err, c', st, rd)
      | (None, c') \<Rightarrow>
          (case WALSegmentPath E (path c') (p_Generation pos) (p_Index pos) (p_Offset pos) of
             Inl err \<Rightarrow>
               Return (zeroWALSegmentInfo,
                 Some (Errorf ''cannot determine wal segment path: %w'' [] (Some err)), c', st, rd)
           | Inr key \<Rightarrow>
               (let startTime = now; rc = NewReadCounter rd in
                case containerURL c' of
                  None \<Rightarrow> Panic
                | Some h \<Rightarrow>
                    (case run_upload (UploadStreamToBlockBlob E h key st) rc of
                       (err, st', rc') \<Rightarrow>
                         if err \<noteq> None then Return (zeroWALSegmentInfo, err, c', st', rc_r rc')
                         else Return
                           (\<lparr>w_Generation = p_Generation pos, w_Index = p_Index pos,
                             w_Offset = p_Offset pos, w_Size = N rc',
                             w_CreatedAt = Time_UTC startTime\<rparr>,
                            None, c', st', rc_r rc')))))"

subsection \<open>Iterators\<close>

text \<open>
  \<open>path.Base\<close> of Go's path package: the last element of a path, after its trailing
  slashes are removed; \<open>"."\<close> for the empty path and \<open>"/"\<close> for a path of slashes only.
\<close>

definition Base :: "string \<Rightarrow> string" where
  "Base p =
     (if p = [] then ''.''
      else
        (let p1 = rev (dropWhile (\<lambda>c. c = CHR ''/'') (rev p));
             p2 = rev (takeWhile (\<lambda>c. c \<noteq> CHR ''/'') (rev p1))
         in if p2 = [] then ''/'' else p2))"

text \<open>
  One turn of the body of the entry loop of \<open>snapshotIterator.fetch\<close> (lines 414-425), up to
  the hand-off: \<open>Return None\<close> is \<open>continue\<close> (the key does not parse), \<open>Return (Some info)\<close> is
  the entry to hand off, and dereferencing a nil \<open>ContentLength\<close> or \<open>CreationTime\<close> panics.
\<close>

definition snapshot_entry :: "'st env \<Rightarrow> string \<Rightarrow> BlobItem \<Rightarrow> SnapshotInfo option outcome" where
  "snapshot_entry E generation item =
     (let key = Base (Name item) in
      case ParseSnapshotPath E key of
        Inl err \<Rightarrow> Return None
      | Inr index \<Rightarrow>
          (case ContentLength item of
             None \<Rightarrow> Panic
           | Some n \<Rightarrow>
               (case CreationTime item of
                  None \<Rightarrow> Panic
                | Some t \<Rightarrow>
                    Return (Some \<lparr>s_Generation = generation, s_Index = index, s_Size = n,
                                  s_CreatedAt = Time_UTC t\<rparr>))))"

text \<open>The same for \<open>walSegmentIterator.fetch\<close> (lines 522-534).\<close>

definition walSegment_entry :: "'st env \<Rightarrow> string \<Rightarrow> BlobItem \<Rightarrow> WALSegmentInfo option outcome" where
  "walSegment_entry E generation item =
     (let key = Base (Name item) in
      case ParseWALSegmentPath E key of
        Inl err \<Rightarrow> Return None
      | Inr (index, offset) \<Rightarrow>
          (case ContentLength item of
             None \<Rightarrow> Panic
           | Some n \<Rightarrow>
               (case CreationTime item of
                  None \<Rightarrow> Panic
                | Some t \<Rightarrow>
                    Return (Some \<lparr>w_Generation = generation, w_Index = index, w_Offset = offset,
                                  w_Size = n, w_CreatedAt = Time_UTC t\<rparr>))))"

text \<open>
  The two fetch loops are the same code but for the body above, so they share the loops
  here. A run of \<open>fetch\<close> is described by the entries it hands off to the channel, in order,
  and by how it ends: \<open>Return err\<close> with the error it returns, or \<open>Panic\<close>. Every hand-off is
  taken to be received (the context is not cancelled while the task runs; on a cancelled
  context the \<open>select\<close> may drop the entry instead).

  \<open>fetch_items\<close> is the loop over the entries of one page (lines 413-431, 521-540); its
  flag says whether it panicked.
\<close>

fun fetch_items :: "(BlobItem \<Rightarrow> 'i option outcome) \<Rightarrow> BlobItem list \<Rightarrow> 'i list \<times> bool" where
  "fetch_items entry [] = ([], False)"
| "fetch_items entry (item # items) =
     (case entry item of
        Panic \<Rightarrow> ([], True)
      | Return None \<Rightarrow> fetch_items entry items
      | Return (Some info) \<Rightarrow>
          (case fetch_items entry items of (sent, panicked) \<Rightarrow> (info # sent, panicked)))"

text \<open>The loop over the listing (lines 402-433, 510-542).\<close>

fun fetch_pages ::
  "(BlobItem \<Rightarrow> 'i option outcome) \<Rightarrow> listing \<Rightarrow> 'i list \<times> error option outcome"
where
  "fetch_pages entry (ListError err) = ([], Return (Some err))"
| "fetch_pages entry (LastPage items) =
     (case fetch_items entry items of
        (sent, True) \<Rightarrow> (sent, Panic)
      | (sent, False) \<Rightarrow> (sent, Return None))"
| "fetch_pages entry (Page items rest) =
     (case fetch_items entry items of
        (sent, True) \<Rightarrow> (sent, Panic)
      | (sent, False) \<Rightarrow>
          (case fetch_pages entry rest of (sent', r) \<Rightarrow> (sent @ sent', r)))"

text \<open>\<open>snapshotIterator.fetch\<close> (lines 393-434), on the listing of the snapshots prefix.\<close>

definition snapshotIterator_fetch ::
  "'st env \<Rightarrow> ReplicaClient \<Rightarrow> string \<Rightarrow> listing \<Rightarrow> SnapshotInfo list \<times> error option outcome"
where
  "snapshotIterator_fetch E client generation l =
     (case SnapshotsPath E (path client) generation of
        Inl err \<Rightarrow> ([], Return (Some (Errorf ''cannot determine snapshots path: %w'' [] (Some err))))
      | Inr dir \<Rightarrow>
          (case containerURL client of
             None \<Rightarrow> ([], Panic)
           | Some h \<Rightarrow> fetch_pages (snapshot_entry E generation) l))"

text \<open>\<open>walSegmentIterator.fetch\<close> (lines 501-543), on the listing of the WAL prefix.\<close>

definition walSegmentIterator_fetch ::
  "'st env \<Rightarrow> ReplicaClient \<Rightarrow> string \<Rightarrow> listing \<Rightarrow> WALSegmentInfo list \<times> error option outcome"
where
  "walSegmentIterator_fetch E client generation l =
     (case WALPath E (path client) generation of
        Inl err \<Rightarrow> ([], Return (Some (Errorf ''cannot determine wal path: %w'' [] (Some err))))
      | Inr dir \<Rightarrow>
          (case containerURL client of
             None \<Rightarrow> ([], Panic)
           | Some h \<Rightarrow> fetch_pages (walSegment_entry E generation) l))"

text \<open>
  The iterator structs (lines 366-377, 474-485), as their consumer sees them. The
  background task, its channel and its error group are described by what the task does:
  \<open>itr_ch\<close> holds the entries the task has still to hand off before it closes the channel,
  and \<open>itr_g\<close> is how the task ends, which is what \<open>g.Wait()\<close> delivers. \<open>itr_done\<close> says
  that the iterator's context is cancelled, which here only \<open>Close\<close> does (the caller's
  context is taken not to be cancelled); \<open>itr_info\<close> and \<open>itr_err\<close> are the fields \<open>info\<close>
  and \<open>err\<close>.
\<close>

record 'i iterator =
  itr_ch :: "'i list"
  itr_g :: "error option outcome"
  itr_done :: bool
  itr_info :: 'i
  itr_err :: "error option"

text \<open>\<open>newSnapshotIterator\<close> (lines 379-390) and \<open>newWALSegmentIterator\<close> (lines 487-498).\<close>

definition newSnapshotIterator ::
  "'st env \<Rightarrow> string \<Rightarrow> ReplicaClient \<Rightarrow> listing \<Rightarrow> SnapshotInfo iterator"
where
  "newSnapshotIterator E generation client l =
     (case snapshotIterator_fetch E client generation l of
        (sent, r) \<Rightarrow>
          \<lparr>itr_ch = sent, itr_g = r, itr_done = False, itr_info = zeroSnapshotInfo,
           itr_err = None\<rparr>)"

definition newWALSegmentIterator ::
  "'st env \<Rightarrow> string \<Rightarrow> ReplicaClient \<Rightarrow> listing \<Rightarrow> WALSegmentInfo iterator"
where
  "newWALSegmentIterator E generation client l =
     (case walSegmentIterator_fetch E client generation l of
        (sent, r) \<Rightarrow>
          \<lparr>itr_ch = sent, itr_g = r, itr_done = False, itr_info = zeroWALSegmentInfo,
           itr_err = None\<rparr>)"

text \<open>
  \<open>Next\<close> (lines 448-466, 557-575): false on a recorded error; false on a cancelled
  context; otherwise it receives from the channel: the next entry, which becomes the
  current one, or the closing of the channel when the task has ended. A task that ended
  in a panic has taken the process with it.
\<close>

definition Next :: "'i iterator \<Rightarrow> (bool \<times> 'i iterator) outcome" where
  "Next itr =
     (if itr_err itr \<noteq> None then Return (False, itr)
      else if itr_done itr then Return (False, itr)
      else
        (case itr_ch itr of
           info # rest \<Rightarrow> Return (True, itr\<lparr>itr_info := info, itr_ch := rest\<rparr>)
         | [] \<Rightarrow> (case itr_g itr of Panic \<Rightarrow> Panic | Return e \<Rightarrow> Return (False, itr))))"

text \<open>\<open>Err\<close> (lines 468, 577) and the current entry (lines 470-472, 579-581).\<close>

definition Err :: "'i iterator \<Rightarrow> error option" where
  "Err itr = itr_err itr"

definition Snapshot :: "SnapshotInfo iterator \<Rightarrow> SnapshotInfo" where
  "Snapshot itr = itr_info itr"

definition WALSegment :: "WALSegmentInfo iterator \<Rightarrow> WALSegmentInfo" where
  "WALSegment itr = itr_info itr"

text \<open>
  \<open>Close\<close> (lines 436-446, 545-555): it cancels the context, on which the task drops the
  entries it still holds and runs to its end, waits for the task, and returns the recorded
  error or else the task's.
\<close>

definition Close :: "'i iterator \<Rightarrow> (error option \<times> 'i iterator) outcome" where
  "Close itr =
     (let err = itr_err itr;
          itr' = itr\<lparr>itr_done := True, itr_ch := []\<rparr>
      in case itr_g itr of
           Panic \<Rightarrow> Panic
         | Return e \<Rightarrow> Return (if e \<noteq> None \<and> err = None then e else err, itr'))"

text \<open>\<open>Snapshots\<close> (lines 183-188) and \<open>WALSegments\<close> (lines 274-279).\<close>

definition Snapshots ::
  "'st env \<Rightarrow> ReplicaClient \<Rightarrow> string \<Rightarrow> listing \<Rightarrow>
     (error + SnapshotInfo iterator) \<times> ReplicaClient"
where
  "Snapshots E c generation l =
     (case Init E c of
        (Some err, c') \<Rightarrow> (Inl err, c')
      | (None, c') \<Rightarrow> (Inr (newSnapshotIterator E generation c' l), c'))"

definition WALSegments ::
  "'st env \<Rightarrow> ReplicaClient \<Rightarrow> string \<Rightarrow> listing \<Rightarrow>
     (error + WALSegmentInfo iterator) \<times> ReplicaClient"
where
  "WALSegments E c generation l =
     (case Init E c of
        (Some err, c') \<Rightarrow> (Inl err, c')
      | (None, c') \<Rightarrow> (Inr (newWALSegmentIterator E generation c' l), c'))"

text \<open>
  The consumer's loop \<open>for itr.Next() { ... itr.Snapshot() ... }\<close>: the entries it sees, and
  the iterator when \<open>Next\<close> has returned false.
\<close>

function drain :: "'i iterator \<Rightarrow> ('i list \<times> 'i iterator) outcome" where
  "drain itr =
     (case Next itr of
        Panic \<Rightarrow> Panic
      | Return (False, itr') \<Rightarrow> Return ([], itr')
      | Return (True, itr') \<Rightarrow>
          (case drain itr' of
             Panic \<Rightarrow> Panic
           | Return (seen, itr'') \<Rightarrow> Return (itr_info itr' # seen, itr'')))"
  by pat_completeness auto
termination
  by (relation "measure (\<lambda>itr. length (itr_ch itr))")
     (auto simp: Next_def split: if_splits list.splits outcome.splits)

declare drain.simps [simp del]

text \<open>
  Two notions for speaking about listings: the entries of a listing in the order in which
  the loop over it meets them (the pages before the first error), and the listing with
  the entries that fail a test removed from its pages.
\<close>

fun listing_items :: "listing \<Rightarrow> BlobItem list" where
  "listing_items (ListError err) = []"
| "listing_items (LastPage items) = items"
| "listing_items (Page items rest) = items @ listing_items rest"

fun filter_listing :: "(BlobItem \<Rightarrow> bool) \<Rightarrow> listing \<Rightarrow> listing" where
  "filter_listing keep (ListError err) = ListError err"
| "filter_listing keep (LastPage items) = LastPage (filter keep items)"
| "filter_listing keep (Page items rest) = Page (filter keep items) (filter_listing keep rest)"

subsection \<open>Package litestream's path functions\<close>

text \<open>
  The client calls the path functions of package litestream, whose code is not under
  src/. The operations above take them from the environment; this section gives the
  functions that the specification describes (section 4.1, PathCodec).
\<close>

text \<open>Modelled from the spec: one lower-case hexadecimal digit, for a value below 16.\<close>

definition hexdigit :: "nat \<Rightarrow> char" where
  "hexdigit d = ''0123456789abcdef'' ! d"

text \<open>
  Modelled from the spec: "fixed-width zero-padded hexadecimal", the \<open>w\<close> low hexadecimal
  digits of a number, most significant first. A number below \<open>16 ^ w\<close> is rendered whole.
\<close>

fun hex :: "nat \<Rightarrow> nat \<Rightarrow> string" where
  "hex 0 n = []"
| "hex (Suc w) n = hex w (n div 16) @ [hexdigit (n mod 16)]"

text \<open>Modelled from the spec: the characters that are lower-case hexadecimal digits.\<close>

definition is_hexdigit :: "char \<Rightarrow> bool" where
  "is_hexdigit c = (c \<in> set ''0123456789abcdef'')"

text \<open>Modelled from the spec: the value of a hexadecimal digit, by its character code.\<close>

definition hexval :: "char \<Rightarrow> nat" where
  "hexval c = (if of_char c < (97::nat) then of_char c - 48 else of_char c - 87)"

text \<open>Modelled from the spec: the number that a string of hexadecimal digits renders.\<close>

definition unhex :: "string \<Rightarrow> nat" where
  "unhex ds = foldl (\<lambda>a c. 16 * a + hexval c) 0 ds"

text \<open>
  Modelled from the spec: the "well-formedness predicate" of generation identifiers
  ("wrong length/charset" fail it). The specification leaves length and character set
  open; they are sixteen hexadecimal digits here.
\<close>

definition spec_IsGenerationName :: "string \<Rightarrow> bool" where
  "spec_IsGenerationName s = (length s = 16 \<and> list_all is_hexdigit s)"

text \<open>
  Modelled from the spec: a key under a base path, "object-key prefix under which all of
  this adapter's objects live"; an empty base path adds nothing.
\<close>

definition path_join :: "string \<Rightarrow> string \<Rightarrow> string" where
  "path_join a b = (if a = [] then b else a @ ''/'' @ b)"

text \<open>
  Modelled from the spec: \<open>generationPrefix(basePath, generation)\<close>, "failing with
  InvalidGeneration if the generation fails the well-formedness predicate".
\<close>

definition spec_GenerationPath :: "string \<Rightarrow> string \<Rightarrow> error + string" where
  "spec_GenerationPath root generation =
     (if spec_IsGenerationName generation
      then Inr (path_join root (''generations/'' @ generation))
      else Inl (OtherError ''InvalidGeneration''))"

text \<open>Modelled from the spec: \<open>snapshotsPrefix(basePath, generation)\<close>.\<close>

definition spec_SnapshotsPath :: "string \<Rightarrow> string \<Rightarrow> error + string" where
  "spec_SnapshotsPath root generation =
     (case spec_GenerationPath root generation of
        Inl err \<Rightarrow> Inl err
      | Inr dir \<Rightarrow> Inr (dir @ ''/snapshots''))"

text \<open>Modelled from the spec: \<open>walPrefix(basePath, generation)\<close>.\<close>

definition spec_WALPath :: "string \<Rightarrow> string \<Rightarrow> error + string" where
  "spec_WALPath root generation =
     (case spec_GenerationPath root generation of
        Inl err \<Rightarrow> Inl err
      | Inr dir \<Rightarrow> Inr (dir @ ''/wal''))"

text \<open>
  Modelled from the spec: the last element of a snapshot key, the index "rendered as
  fixed-width zero-padded hexadecimal". Width (eight digits) and extension are not in the
  specification.
\<close>

definition spec_FormatSnapshotPath :: "int \<Rightarrow> string" where
  "spec_FormatSnapshotPath index = hex 8 (nat index) @ ''.snapshot.lz4''"

text \<open>
  Modelled from the spec: the last element of a WAL segment key, index and offset
  "rendered as fixed-width zero-padded hexadecimal". Width (eight digits each), separator
  and extension are not in the specification.
\<close>

definition spec_FormatWALSegmentPath :: "int \<Rightarrow> int \<Rightarrow> string" where
  "spec_FormatWALSegmentPath index offset =
     hex 8 (nat index) @ ''_'' @ hex 8 (nat offset) @ ''.wal.lz4''"

text \<open>Modelled from the spec: \<open>snapshotKey(basePath, generation, index)\<close>.\<close>

definition spec_SnapshotPath :: "string \<Rightarrow> string \<Rightarrow> int \<Rightarrow> error + string" where
  "spec_SnapshotPath root generation index =
     (case spec_SnapshotsPath root generation of
        Inl err \<Rightarrow> Inl err
      | Inr dir \<Rightarrow> Inr (dir @ ''/'' @ spec_FormatSnapshotPath index))"

text \<open>Modelled from the spec: \<open>walSegmentKey(basePath, generation, index, offset)\<close>.\<close>

definition spec_WALSegmentPath :: "string \<Rightarrow> string \<Rightarrow> int \<Rightarrow> int \<Rightarrow> error + string" where
  "spec_WALSegmentPath root generation index offset =
     (case spec_WALPath root generation of
        Inl err \<Rightarrow> Inl err
      | Inr dir \<Rightarrow> Inr (dir @ ''/'' @ spec_FormatWALSegmentPath index offset))"

text \<open>
  Modelled from the spec: \<open>parseSnapshotKey(key)\<close>, the inverse of the rendering, which
  "fails with MalformedKey on non-matching shape".
\<close>

definition spec_ParseSnapshotPath :: "string \<Rightarrow> error + int" where
  "spec_ParseSnapshotPath s =
     (if length s = 21 \<and> list_all is_hexdigit (take 8 s) \<and> drop 8 s = ''.snapshot.lz4''
      then Inr (int (unhex (take 8 s)))
      else Inl (OtherError ''MalformedKey''))"

text \<open>Modelled from the spec: \<open>parseWalSegmentKey(key)\<close>, with the "same fail/skip duality".\<close>

definition spec_ParseWALSegmentPath :: "string \<Rightarrow> error + (int \<times> int)" where
  "spec_ParseWALSegmentPath s =
     (if length s = 25 \<and> list_all is_hexdigit (take 8 s) \<and> take 1 (drop 8 s) = ''_''
         \<and> list_all is_hexdigit (take 8 (drop 9 s)) \<and> drop 17 s = ''.wal.lz4''
      then Inr (int (unhex (take 8 s)), int (unhex (take 8 (drop 9 s))))
      else Inl (OtherError ''MalformedKey''))"

subsection \<open>An in-memory container\<close>

text \<open>
  A small remote store on which the operations can be run: the blobs by key, and the keys
  on which the service refuses every request. Deleting or downloading a key that has no
  blob answers with the storage error \<open>BlobNotFound\<close>.
\<close>

record Store =
  blobs :: "(string \<times> string) list"
  denied :: "string list"

definition mem_Delete :: "ContainerURL \<Rightarrow> string \<Rightarrow> Store \<Rightarrow> error option \<times> Store" where
  "mem_Delete h key st =
     (if key \<in> set (denied st) then (Some (StorageError ''AuthorizationFailure''), st)
      else if map_of (blobs st) key = None then (Some (StorageError ServiceCodeBlobNotFound), st)
      else (None, st\<lparr>blobs := filter (\<lambda>kv. fst kv \<noteq> key) (blobs st)\<rparr>))"

definition mem_Download ::
  "ContainerURL \<Rightarrow> string \<Rightarrow> Store \<Rightarrow> (error + DownloadResponse) \<times> Store"
where
  "mem_Download h key st =
     (if key \<in> set (denied st) then (Inl (StorageError ''AuthorizationFailure''), st)
      else
        (case map_of (blobs st) key of
           None \<Rightarrow> (Inl (StorageError ServiceCodeBlobNotFound), st)
         | Some body \<Rightarrow> (Inr \<lparr>dr_ContentLength = int (length body), dr_Body = body\<rparr>, st)))"

text \<open>
  An upload that reads four bytes at a time, up to a bound on the number of reads, and
  stores what it has read when the source reports its end.
\<close>

primrec mem_upload :: "nat \<Rightarrow> string \<Rightarrow> string \<Rightarrow> Store \<Rightarrow> Store upload" where
  "mem_upload 0 key acc st = Finish (Some (OtherError ''request body too large'')) st"
| "mem_upload (Suc n) key acc st =
     ReadCall 4 (\<lambda>bs eof.
       if eof
       then Finish None (st\<lparr>blobs := (key, acc) # filter (\<lambda>kv. fst kv \<noteq> key) (blobs st)\<rparr>)
       else mem_upload n key (acc @ bs) st)"

definition mem_UploadStreamToBlockBlob :: "ContainerURL \<Rightarrow> string \<Rightarrow> Store \<Rightarrow> Store upload" where
  "mem_UploadStreamToBlockBlob h key st =
     (if key \<in> set (denied st) then Finish (Some (StorageError ''AuthorizationFailure'')) st
      else mem_upload 64 key [] st)"

text \<open>
  A parser for URLs of the shape \<open>scheme://host/path?query\<close>, which stands for \<open>url.Parse\<close>
  on such inputs.
\<close>

definition mem_url_Parse :: "string \<Rightarrow> error + URL" where
  "mem_url_Parse s =
     (let scheme = takeWhile (\<lambda>c. c \<noteq> CHR '':'') s;
          r = drop (length scheme) s
      in if take 3 r \<noteq> ''://'' then Inl (OtherError ''missing protocol scheme'')
         else
           (let r2 = drop 3 r;
                host = takeWhile (\<lambda>c. c \<noteq> CHR ''/'' \<and> c \<noteq> CHR ''?'') r2;
                r3 = drop (length host) r2;
                pth = takeWhile (\<lambda>c. c \<noteq> CHR ''?'') r3;
                q = drop (Suc (length pth)) r3
            in Inr \<lparr>Scheme = scheme, Opaque = [], User = None, Host = host, Path = pth,
                    RawPath = [], ForceQuery = False, RawQuery = q, Fragment = [],
                    RawFragment = []\<rparr>))"

definition mem_env :: "Store env" where
  "mem_env =
     \<lparr>url_Parse = mem_url_Parse,
      GenerationPath = spec_GenerationPath,
      SnapshotsPath = spec_SnapshotsPath,
      SnapshotPath = spec_SnapshotPath,
      ParseSnapshotPath = spec_ParseSnapshotPath,
      WALPath = spec_WALPath,
      WALSegmentPath = spec_WALSegmentPath,
      ParseWALSegmentPath = spec_ParseWALSegmentPath,
      blob_Delete = mem_Delete,
      blob_Download = mem_Download,
      UploadStreamToBlockBlob = mem_UploadStreamToBlockBlob\<rparr>"

text \<open>
  A client on that container, before and after its first \<open>Init\<close>, and a well-formed
  generation name.
\<close>

definition mem_url :: string where
  "mem_url = ''https://h/c?s=1''"

definition mem_handle :: ContainerURL where
  "mem_handle =
     \<lparr>cu_url = \<lparr>Scheme = ''https'', Opaque = [], User = None, Host = ''h'', Path = ''/c'',
                 RawPath = [], ForceQuery = False, RawQuery = ''s=1'', Fragment = [],
                 RawFragment = []\<rparr>,
      cu_TryTimeout = 24 * Hour\<rparr>"

definition mem_client0 :: ReplicaClient where
  "mem_client0 = \<lparr>containerURL = None, container = ''c'', path = [], sasURL = mem_url\<rparr>"

definition mem_client :: ReplicaClient where
  "mem_client = mem_client0\<lparr>containerURL := Some mem_handle\<rparr>"

definition mem_generation :: string where
  "mem_generation = ''0123456789abcdef''"

section \<open>Properties\<close>

subsection \<open>Splitting a path at its slashes\<close>

lemma split_at_char:
  "c \<in> set s \<Longrightarrow> s = takeWhile (\<lambda>x. x \<noteq> c) s @ c # tl (dropWhile (\<lambda>x. x \<noteq> c) s)"
  by (induction s) auto

lemma takeWhile_free: "c \<notin> set (takeWhile (\<lambda>x. x \<noteq> c) s)"
  by (induction s) auto

lemma genSplit_nonempty: "genSplit n s sep \<noteq> []"
  by (cases n) (auto split: option.splits)

lemma Split_nonempty: "sep \<noteq> [] \<Longrightarrow> Split s sep \<noteq> []"
  by (simp add: Split_def genSplit_nonempty)

lemma Index_char:
  "Index s [c] = (if c \<in> set s then Some (length (takeWhile (\<lambda>x. x \<noteq> c) s)) else None)"
  by (induction s) auto

lemma Join_Cons: "ys \<noteq> [] \<Longrightarrow> Join (x # ys) sep = x @ sep @ Join ys sep"
  by (cases ys) auto

lemma takeWhile_drop_Suc:
  "c \<in> set s \<Longrightarrow> drop (Suc (length (takeWhile (\<lambda>x. x \<noteq> c) s))) s = tl (dropWhile (\<lambda>x. x \<noteq> c) s)"
  by (induction s) auto

lemma take_takeWhile_len:
  "take (length (takeWhile P s)) s = takeWhile P s"
  by (induction s) auto

lemma genSplit_char_Join:
  "length s \<le> n \<Longrightarrow> Join (genSplit n s [c]) [c] = s"
proof (induction n arbitrary: s)
  case 0
  then show ?case by simp
next
  case (Suc n)
  show ?case
  proof (cases "c \<in> set s")
    case False
    then show ?thesis by (simp add: Index_char)
  next
    case True
    let ?m = "length (takeWhile (\<lambda>x. x \<noteq> c) s)"
    let ?r = "tl (dropWhile (\<lambda>x. x \<noteq> c) s)"
    have s: "s = takeWhile (\<lambda>x. x \<noteq> c) s @ c # ?r"
      using True by (rule split_at_char)
    have "length ?r < length s"
      using s by (metis add_Suc_right length_Cons length_append less_add_Suc2)
    with Suc.prems have "length ?r \<le> n" by simp
    then have IH: "Join (genSplit n ?r [c]) [c] = ?r" by (rule Suc.IH)
    show ?thesis
      using True IH s
      by (simp add: Index_char takeWhile_drop_Suc take_takeWhile_len Join_Cons genSplit_nonempty)
  qed
qed

lemma takeWhile_absent: "c \<notin> set s \<Longrightarrow> takeWhile (\<lambda>x. x \<noteq> c) s = s"
  by (induction s) auto

lemma genSplit_char_hd:
  "genSplit n s [c] \<noteq> [] \<and> (0 < n \<or> c \<notin> set s \<longrightarrow> hd (genSplit n s [c]) = takeWhile (\<lambda>x. x \<noteq> c) s)"
  by (cases n) (auto simp: Index_char take_takeWhile_len takeWhile_absent)

lemma genSplit_char_tl:
  "length s \<le> n \<Longrightarrow>
     tl (genSplit n s [c]) = (if c \<in> set s then genSplit (n - 1) (tl (dropWhile (\<lambda>x. x \<noteq> c) s)) [c] else [])"
  by (cases n) (auto simp: Index_char takeWhile_drop_Suc)

lemma Split_slash_hd:
  "hd (Split s ''/'') = takeWhile (\<lambda>x. x \<noteq> CHR ''/'') s"
  using genSplit_char_hd[of "length s" s "CHR ''/''"]
  by (cases s) (auto simp: Split_def)

lemma Split_slash_rest:
  "Join (tl (Split s ''/'')) ''/'' =
     (if CHR ''/'' \<in> set s then tl (dropWhile (\<lambda>x. x \<noteq> CHR ''/'') s) else [])"
proof (cases "CHR ''/'' \<in> set s")
  case False
  then show ?thesis by (simp add: Split_def genSplit_char_tl)
next
  case True
  let ?r = "tl (dropWhile (\<lambda>x. x \<noteq> CHR ''/'') s)"
  have "length ?r \<le> length (dropWhile (\<lambda>x. x \<noteq> CHR ''/'') s) - 1" by simp
  also have "\<dots> \<le> length s - 1"
    by (simp add: diff_le_mono length_dropWhile_le)
  finally have "Join (genSplit (length s - 1) ?r ''/'') ''/'' = ?r"
    by (rule genSplit_char_Join)
  with True show ?thesis by (simp add: Split_def genSplit_char_tl)
qed

lemma Split_slash_single:
  "length (Split s ''/'') > 1 \<longleftrightarrow> CHR ''/'' \<in> set s"
proof -
  have "length (Split s ''/'') = Suc (length (tl (Split s ''/'')))"
    using Split_nonempty[of "''/''" s] by (cases "Split s ''/''") auto
  then show ?thesis
    by (auto simp: Split_def genSplit_char_tl genSplit_nonempty)
qed

lemma NewReplicaClient_ok:
  assumes "url_Parse E sasUrl = Inr u"
  shows "NewReplicaClient E sasUrl =
     Inr \<lparr>containerURL = None,
          container = takeWhile (\<lambda>x. x \<noteq> CHR ''/'') (TrimPrefix (Path u) ''/''),
          path = (if CHR ''/'' \<in> set (TrimPrefix (Path u) ''/'')
                  then tl (dropWhile (\<lambda>x. x \<noteq> CHR ''/'') (TrimPrefix (Path u) ''/'')) else []),
          sasURL = sasUrl\<rparr>"
proof -
  let ?t = "TrimPrefix (Path u) ''/''"
  have ne: "Split ?t ''/'' \<noteq> []" by (rule Split_nonempty) simp
  then have len: "\<not> length (Split ?t ''/'') < 1" by (cases "Split ?t ''/''") auto
  have hd0: "Split ?t ''/'' ! 0 = hd (Split ?t ''/'')" using ne by (simp add: hd_conv_nth)
  have dr: "drop 1 (Split ?t ''/'') = tl (Split ?t ''/'')" by (simp add: drop_Suc)
  show ?thesis
    unfolding NewReplicaClient_def Let_def
    using assms len
    by (simp add: hd0 dr Split_slash_hd Split_slash_rest Split_slash_single del: One_nat_def)
qed

subsection \<open>Construction and initialisation\<close>

lemma Init_cached: "containerURL c \<noteq> None \<Longrightarrow> Init E c = (None, c)"
  by (simp add: Init_def)

lemma Init_parsed:
  "containerURL c = None \<Longrightarrow> url_Parse E (sasURL c) = Inr u \<Longrightarrow>
     Init E c = (None, c\<lparr>containerURL := Some (NewContainerURL (u\<lparr>Path := ''/'' @ container c\<rparr>) (24 * Hour))\<rparr>)"
  by (simp add: Init_def)

lemma Init_fields:
  "container (snd (Init E c)) = container c \<and> path (snd (Init E c)) = path c
     \<and> sasURL (snd (Init E c)) = sasURL c"
  by (auto simp: Init_def Let_def split: sum.splits)

lemma Init_ok_handle:
  "Init E c = (None, c') \<Longrightarrow> containerURL c' \<noteq> None"
  by (auto simp: Init_def Let_def split: sum.splits if_splits)

lemma Init_idem: "Init E c = (None, c') \<Longrightarrow> Init E c' = (None, c')"
  using Init_ok_handle[of E c c'] by (simp add: Init_cached)

lemma Init_parses_ok:
  "url_Parse E (sasURL c) = Inr u \<Longrightarrow> fst (Init E c) = None"
  by (simp add: Init_def Let_def)

lemma mem_client0_new: "NewReplicaClient mem_env mem_url = Inr mem_client0"
  by code_simp

lemma mem_client_init: "Init mem_env mem_client0 = (None, mem_client)"
  by code_simp

lemma mem_parse_example:
  "url_Parse mem_env ''https://h/c/p/q?sig=1''
     = Inr \<lparr>Scheme = ''https'', Opaque = [], User = None, Host = ''h'', Path = ''/c/p/q'',
            RawPath = [], ForceQuery = False, RawQuery = ''sig=1'', Fragment = [],
            RawFragment = []\<rparr>"
  by (simp add: mem_env_def mem_url_Parse_def)

lemma mem_client_example:
  "NewReplicaClient mem_env ''https://h/c/p/q?sig=1''
     = Inr \<lparr>containerURL = None, container = ''c'', path = ''p/q'',
            sasURL = ''https://h/c/p/q?sig=1''\<rparr>"
  by (simp add: NewReplicaClient_ok[OF mem_parse_example] TrimPrefix_def)

text \<open>
  C10: \<open>NewReplicaClient\<close> never returns its "missing container name" error when the URL
  parses. \<open>strings.Split\<close> with the separator \<open>"/"\<close> yields at least one element, so the
  guard \<open>len(pathParts) < 1\<close> is never taken; a URL with an empty path gives a client whose
  container name and path prefix are both empty.
\<close>

theorem NewReplicaClient_never_missing_container:
  assumes "url_Parse E sasUrl = Inr u"
  shows "NewReplicaClient E sasUrl
           \<noteq> Inl (Errorf ''invalid SAS URL format: missing container name'' [] None)
         \<and> 1 \<le> length (Split (TrimPrefix (Path u) ''/'') ''/'')
         \<and> (\<exists>c. NewReplicaClient E sasUrl = Inr c
                \<and> (Path u = [] \<longrightarrow> container c = [] \<and> path c = []))"
proof -
  have "Split (TrimPrefix (Path u) ''/'') ''/'' \<noteq> []" by (rule Split_nonempty) simp
  then have "1 \<le> length (Split (TrimPrefix (Path u) ''/'') ''/'')"
    by (cases "Split (TrimPrefix (Path u) ''/'') ''/''") auto
  moreover have "Path u = [] \<Longrightarrow> TrimPrefix (Path u) ''/'' = []" by (simp add: TrimPrefix_def)
  ultimately show ?thesis
    using NewReplicaClient_ok[OF assms] by auto
qed

theorem NewReplicaClient_never_missing_container_witness:
  "url_Parse mem_env ''https://h?sig=1''
     = Inr \<lparr>Scheme = ''https'', Opaque = [], User = None, Host = ''h'', Path = [],
            RawPath = [], ForceQuery = False, RawQuery = ''sig=1'', Fragment = [],
            RawFragment = []\<rparr>
   \<and> (\<exists>c. NewReplicaClient mem_env ''https://h?sig=1'' = Inr c \<and> container c = [] \<and> path c = [])"
proof -
  have h: "url_Parse mem_env ''https://h?sig=1''
     = Inr \<lparr>Scheme = ''https'', Opaque = [], User = None, Host = ''h'', Path = [],
            RawPath = [], ForceQuery = False, RawQuery = ''sig=1'', Fragment = [],
            RawFragment = []\<rparr>"
    by (simp add: mem_env_def mem_url_Parse_def)
  show ?thesis
    using h NewReplicaClient_never_missing_container[OF h] by simp
qed

text \<open>
  C9: for a client returned by \<open>NewReplicaClient\<close>, \<open>Init\<close> never returns an error. Its
  only failure is parsing the stored URL, which is the string that \<open>NewReplicaClient\<close>
  parsed. The first call caches the handle, and every later call (\<open>Init\<close> is the only
  code that writes the client) finds it cached and leaves the client as it is.
\<close>

theorem Init_cannot_fail:
  assumes "NewReplicaClient E sasUrl = Inr c"
  shows "fst (Init E c) = None
         \<and> containerURL (snd (Init E c)) \<noteq> None
         \<and> (\<forall>n. fst (Init E (((\<lambda>c. snd (Init E c)) ^^ n) c)) = None)
         \<and> (\<forall>n. ((\<lambda>c. snd (Init E c)) ^^ Suc n) c = snd (Init E c))"
proof -
  from assms obtain u where u: "url_Parse E sasUrl = Inr u"
    by (auto simp: NewReplicaClient_def split: sum.splits)
  from assms NewReplicaClient_ok[OF u] have c: "sasURL c = sasUrl" "containerURL c = None"
    by auto
  define c1 where "c1 = snd (Init E c)"
  have i1: "Init E c = (None, c1)"
    using Init_parsed[of c E u] c u by (simp add: c1_def)
  have i2: "Init E c1 = (None, c1)" using i1 by (rule Init_idem)
  have it: "((\<lambda>c. snd (Init E c)) ^^ Suc n) c = c1" for n
    by (induction n) (simp_all add: i1 i2)
  have al: "fst (Init E (((\<lambda>c. snd (Init E c)) ^^ n) c)) = None" for n
    using it[of "n - 1"] i1 i2 by (cases n) simp_all
  have a: "fst (Init E c) = None" using i1 by simp
  have b: "containerURL (snd (Init E c)) \<noteq> None"
    using Init_ok_handle[OF i1] by (simp add: c1_def)
  show ?thesis
    using a b al it unfolding c1_def by blast
qed

theorem Init_cannot_fail_witness:
  "NewReplicaClient mem_env ''https://h/c/p/q?sig=1''
     = Inr \<lparr>containerURL = None, container = ''c'', path = ''p/q'',
            sasURL = ''https://h/c/p/q?sig=1''\<rparr>
   \<and> fst (Init mem_env \<lparr>containerURL = None, container = ''c'', path = ''p/q'',
            sasURL = ''https://h/c/p/q?sig=1''\<rparr>) = None"
  using mem_client_example Init_cannot_fail[OF mem_client_example, THEN conjunct1] by simp

lemma operations_keep_client:
  "(\<forall>c g i st r c' st'.
      DeleteSnapshot E c g i st = Return (r, c', st') \<longrightarrow> c' = snd (Init E c))
   \<and> (\<forall>c a st r c' st'.
      DeleteWALSegments E c a st = Return (r, c', st') \<longrightarrow> c' = snd (Init E c))
   \<and> (\<forall>c g l st r c' st'.
      DeleteGeneration E c g l st = Return (r, c', st') \<longrightarrow> c' = snd (Init E c))
   \<and> (\<forall>c g i st r c' st'.
      SnapshotReader E c g i st = Return (r, c', st') \<longrightarrow> c' = snd (Init E c))
   \<and> (\<forall>c pos st r c' st'.
      WALSegmentReader E c pos st = Return (r, c', st') \<longrightarrow> c' = snd (Init E c))
   \<and> (\<forall>c g i rd now st info r c' st' rd'.
      WriteSnapshot E c g i rd now st = Return (info, r, c', st', rd') \<longrightarrow> c' = snd (Init E c))
   \<and> (\<forall>c pos rd now st info r c' st' rd'.
      WriteWALSegment E c pos rd now st = Return (info, r, c', st', rd') \<longrightarrow> c' = snd (Init E c))
   \<and> (\<forall>c g l. snd (Snapshots E c g l) = snd (Init E c))
   \<and> (\<forall>c g l. snd (WALSegments E c g l) = snd (Init E c))"
proof (intro conjI allI impI)
  fix c g i st r c' st'
  assume "DeleteSnapshot E c g i st = Return (r, c', st')"
  then show "c' = snd (Init E c)"
    by (auto simp: DeleteSnapshot_def split: prod.splits option.splits sum.splits if_splits)
next
  fix c a st r c' st'
  assume "DeleteWALSegments E c a st = Return (r, c', st')"
  then show "c' = snd (Init E c)"
    by (auto simp: DeleteWALSegments_def split: prod.splits option.splits outcome.splits)
next
  fix c g l st r c' st'
  assume "DeleteGeneration E c g l st = Return (r, c', st')"
  then show "c' = snd (Init E c)"
    by (auto simp: DeleteGeneration_def split: prod.splits option.splits sum.splits)
next
  fix c g i st r c' st'
  assume "SnapshotReader E c g i st = Return (r, c', st')"
  then show "c' = snd (Init E c)"
    by (auto simp: SnapshotReader_def split: prod.splits option.splits sum.splits if_splits)
next
  fix c pos st r c' st'
  assume "WALSegmentReader E c pos st = Return (r, c', st')"
  then show "c' = snd (Init E c)"
    by (auto simp: WALSegmentReader_def split: prod.splits option.splits sum.splits if_splits)
next
  fix c g i rd now st info r c' st' rd'
  assume "WriteSnapshot E c g i rd now st = Return (info, r, c', st', rd')"
  then show "c' = snd (Init E c)"
    by (auto simp: WriteSnapshot_def Let_def split: prod.splits option.splits sum.splits if_splits)
next
  fix c pos rd now st info r c' st' rd'
  assume "WriteWALSegment E c pos rd now st = Return (info, r, c', st', rd')"
  then show "c' = snd (Init E c)"
    by (auto simp: WriteWALSegment_def Let_def split: prod.splits option.splits sum.splits if_splits)
next
  fix c g l
  show "snd (Snapshots E c g l) = snd (Init E c)"
    by (auto simp: Snapshots_def split: prod.splits option.splits)
next
  fix c g l
  show "snd (WALSegments E c g l) = snd (Init E c)"
    by (auto simp: WALSegments_def split: prod.splits option.splits)
qed

text \<open>
  C7: \<open>NewReplicaClient\<close> takes container and path from the parsed URL's path with its
  leading slash trimmed: the container is the first segment (it holds no slash), the path
  is the rest after the first slash (empty if there is none), and the URL string is stored
  as given. \<open>Init\<close> builds the handle on the parse of the stored string with only \<open>Path\<close>
  replaced by \<open>"/" + container\<close>, so the query is the URL's own; and \<open>Init\<close> never changes
  container, path or the stored URL of any client.
\<close>

theorem NewReplicaClient_access_scope:
  assumes "url_Parse E sasUrl = Inr u"
  shows "\<exists>c h. NewReplicaClient E sasUrl = Inr c
           \<and> sasURL c = sasUrl
           \<and> CHR ''/'' \<notin> set (container c)
           \<and> TrimPrefix (Path u) ''/''
               = (if CHR ''/'' \<in> set (TrimPrefix (Path u) ''/'')
                  then container c @ ''/'' @ path c else container c)
           \<and> (CHR ''/'' \<in> set (TrimPrefix (Path u) ''/'') \<or> path c = [])
           \<and> Init E c = (None, c\<lparr>containerURL := Some h\<rparr>)
           \<and> cu_url h = u\<lparr>Path := ''/'' @ container c\<rparr>
           \<and> RawQuery (cu_url h) = RawQuery u
           \<and> (\<forall>c'. container (snd (Init E c')) = container c'
                  \<and> path (snd (Init E c')) = path c'
                  \<and> sasURL (snd (Init E c')) = sasURL c')
           \<and> ((\<forall>c g i st r c' st'.
      DeleteSnapshot E c g i st = Return (r, c', st') \<longrightarrow> c' = snd (Init E c))
   \<and> (\<forall>c a st r c' st'.
      DeleteWALSegments E c a st = Return (r, c', st') \<longrightarrow> c' = snd (Init E c))
   \<and> (\<forall>c g l st r c' st'.
      DeleteGeneration E c g l st = Return (r, c', st') \<longrightarrow> c' = snd (Init E c))
   \<and> (\<forall>c g i st r c' st'.
      SnapshotReader E c g i st = Return (r, c', st') \<longrightarrow> c' = snd (Init E c))
   \<and> (\<forall>c pos st r c' st'.
      WALSegmentReader E c pos st = Return (r, c', st') \<longrightarrow> c' = snd (Init E c))
   \<and> (\<forall>c g i rd now st info r c' st' rd'.
      WriteSnapshot E c g i rd now st = Return (info, r, c', st', rd') \<longrightarrow> c' = snd (Init E c))
   \<and> (\<forall>c pos rd now st info r c' st' rd'.
      WriteWALSegment E c pos rd now st = Return (info, r, c', st', rd') \<longrightarrow> c' = snd (Init E c))
   \<and> (\<forall>c g l. snd (Snapshots E c g l) = snd (Init E c))
   \<and> (\<forall>c g l. snd (WALSegments E c g l) = snd (Init E c)))"
proof -
  let ?t = "TrimPrefix (Path u) ''/''"
  define c where "c = \<lparr>containerURL = None,
          container = takeWhile (\<lambda>x. x \<noteq> CHR ''/'') ?t,
          path = (if CHR ''/'' \<in> set ?t then tl (dropWhile (\<lambda>x. x \<noteq> CHR ''/'') ?t) else []),
          sasURL = sasUrl\<rparr>"
  define h where "h = NewContainerURL (u\<lparr>Path := ''/'' @ container c\<rparr>) (24 * Hour)"
  have n: "NewReplicaClient E sasUrl = Inr c"
    unfolding c_def by (rule NewReplicaClient_ok[OF assms])
  have ns: "CHR ''/'' \<notin> set (container c)"
    by (simp add: c_def takeWhile_free)
  have sp: "?t = (if CHR ''/'' \<in> set ?t then container c @ ''/'' @ path c else container c)"
  proof (cases "CHR ''/'' \<in> set ?t")
    case True
    then show ?thesis
      using split_at_char[OF True] by (simp add: c_def)
  next
    case False
    then show ?thesis by (simp add: c_def takeWhile_absent)
  qed
  have i: "Init E c = (None, c\<lparr>containerURL := Some h\<rparr>)"
    using Init_parsed[of c E u] assms by (simp add: c_def h_def)
  have q1: "cu_url h = u\<lparr>Path := ''/'' @ container c\<rparr>"
    by (simp add: h_def NewContainerURL_def)
  have q2: "RawQuery (cu_url h) = RawQuery u"
    by (simp add: h_def NewContainerURL_def)
  have p: "CHR ''/'' \<in> set ?t \<or> path c = []" by (simp add: c_def)
  have s: "sasURL c = sasUrl" by (simp add: c_def)
  have f: "\<forall>c'. container (snd (Init E c')) = container c'
                  \<and> path (snd (Init E c')) = path c'
                  \<and> sasURL (snd (Init E c')) = sasURL c'"
    by (simp add: Init_fields)
  note o = operations_keep_client[of E]
  show ?thesis
    apply (rule exI[of _ c])
    apply (rule exI[of _ h])
    apply (intro conjI)
    apply (rule n)
    apply (rule s)
    apply (rule ns)
    apply (rule sp)
    apply (rule p)
    apply (rule i)
    apply (rule q1)
    apply (rule q2)
    apply (rule f)
    apply (rule o[THEN conjunct1])
    apply (rule o[THEN conjunct2, THEN conjunct1])
    apply (rule o[THEN conjunct2, THEN conjunct2, THEN conjunct1])
    apply (rule o[THEN conjunct2, THEN conjunct2, THEN conjunct2, THEN conjunct1])
    apply (rule o[THEN conjunct2, THEN conjunct2, THEN conjunct2, THEN conjunct2, THEN conjunct1])
    apply (rule o[THEN conjunct2, THEN conjunct2, THEN conjunct2, THEN conjunct2, THEN conjunct2, THEN conjunct1])
    apply (rule o[THEN conjunct2, THEN conjunct2, THEN conjunct2, THEN conjunct2, THEN conjunct2, THEN conjunct2, THEN conjunct1])
    apply (rule o[THEN conjunct2, THEN conjunct2, THEN conjunct2, THEN conjunct2, THEN conjunct2, THEN conjunct2, THEN conjunct2, THEN conjunct1])
    apply (rule o[THEN conjunct2, THEN conjunct2, THEN conjunct2, THEN conjunct2, THEN conjunct2, THEN conjunct2, THEN conjunct2, THEN conjunct2])
    done
qed

theorem NewReplicaClient_access_scope_witness:
  "url_Parse mem_env ''https://h/c/p/q?sig=1''
     = Inr \<lparr>Scheme = ''https'', Opaque = [], User = None, Host = ''h'', Path = ''/c/p/q'',
            RawPath = [], ForceQuery = False, RawQuery = ''sig=1'', Fragment = [],
            RawFragment = []\<rparr>
   \<and> (\<exists>c h. NewReplicaClient mem_env ''https://h/c/p/q?sig=1'' = Inr c
          \<and> ''c/p/q'' = container c @ ''/'' @ path c
          \<and> CHR ''/'' \<notin> set (container c)
          \<and> Init mem_env c = (None, c\<lparr>containerURL := Some h\<rparr>)
          \<and> RawQuery (cu_url h) = ''sig=1'')
   \<and> DeleteSnapshot mem_env mem_client0 mem_generation 0 \<lparr>blobs = [], denied = []\<rparr>
       = Return (None, mem_client, \<lparr>blobs = [], denied = []\<rparr>)
   \<and> mem_client = snd (Init mem_env mem_client0)"
proof -
  note T = NewReplicaClient_access_scope[OF mem_parse_example]
  from T obtain c h where a: "NewReplicaClient mem_env ''https://h/c/p/q?sig=1'' = Inr c"
      "CHR ''/'' \<notin> set (container c)"
      "TrimPrefix ''/c/p/q'' ''/''
               = (if CHR ''/'' \<in> set (TrimPrefix ''/c/p/q'' ''/'')
                  then container c @ ''/'' @ path c else container c)"
      "Init mem_env c = (None, c\<lparr>containerURL := Some h\<rparr>)"
      "RawQuery (cu_url h) = ''sig=1''"
    and ops: "\<forall>c g i st r c' st'.
      DeleteSnapshot mem_env c g i st = Return (r, c', st') \<longrightarrow> c' = snd (Init mem_env c)"
    by (elim exE conjE) simp
  have d: "DeleteSnapshot mem_env mem_client0 mem_generation 0 \<lparr>blobs = [], denied = []\<rparr>
       = Return (None, mem_client, \<lparr>blobs = [], denied = []\<rparr>)"
    by code_simp
  from ops d have k: "mem_client = snd (Init mem_env mem_client0)" by blast
  have "\<exists>c h. NewReplicaClient mem_env ''https://h/c/p/q?sig=1'' = Inr c
          \<and> ''c/p/q'' = container c @ ''/'' @ path c
          \<and> CHR ''/'' \<notin> set (container c)
          \<and> Init mem_env c = (None, c\<lparr>containerURL := Some h\<rparr>)
          \<and> RawQuery (cu_url h) = ''sig=1''"
    using a by (auto simp: TrimPrefix_def)
  with mem_parse_example d k show ?thesis by (intro conjI)
qed

subsection \<open>Deleting\<close>

lemma Init_handle: "Init E c = (None, c') \<Longrightarrow> \<exists>h. containerURL c' = Some h"
  using Init_ok_handle[of E c c'] by auto

text \<open>
  C3: a not-found answer to a delete is a success. \<open>DeleteSnapshot\<close> returns nil when the
  store answers its delete with not-found (as it does for a key that has no blob), and the
  loops of \<open>DeleteWALSegments\<close> and \<open>DeleteGeneration\<close> go on with the next object after
  such an answer, from the store as that delete left it.
\<close>

theorem not_found_delete_is_success:
  "(Init E c = (None, c') \<and> SnapshotPath E (path c') generation index = Inr key
      \<and> isNotExists (fst (blob_Delete E (the (containerURL c')) key st))
      \<longrightarrow> DeleteSnapshot E c generation index st
            = Return (None, c', snd (blob_Delete E (the (containerURL c')) key st)))
   \<and> (WALSegmentPath E (path c') (p_Generation pos) (p_Index pos) (p_Offset pos) = Inr wkey
      \<and> containerURL c' = Some h \<and> isNotExists (fst (blob_Delete E h wkey st))
      \<longrightarrow> deleteWALSegments_loop E c' (pos # a) st
            = deleteWALSegments_loop E c' a (snd (blob_Delete E h wkey st)))
   \<and> (isNotExists (fst (blob_Delete E h (Name item) st))
      \<longrightarrow> deleteGeneration_items E h (item # items) st
            = deleteGeneration_items E h items (snd (blob_Delete E h (Name item) st)))"
proof (intro conjI impI)
  assume a: "Init E c = (None, c') \<and> SnapshotPath E (path c') generation index = Inr key
      \<and> isNotExists (fst (blob_Delete E (the (containerURL c')) key st))"
  then obtain h' where h': "containerURL c' = Some h'" using Init_handle by blast
  show "DeleteSnapshot E c generation index st
            = Return (None, c', snd (blob_Delete E (the (containerURL c')) key st))"
    using a h' by (cases "blob_Delete E h' key st") (simp add: DeleteSnapshot_def)
next
  assume "WALSegmentPath E (path c') (p_Generation pos) (p_Index pos) (p_Offset pos) = Inr wkey
      \<and> containerURL c' = Some h \<and> isNotExists (fst (blob_Delete E h wkey st))"
  then show "deleteWALSegments_loop E c' (pos # a) st
            = deleteWALSegments_loop E c' a (snd (blob_Delete E h wkey st))"
    by (cases "blob_Delete E h wkey st") simp
next
  assume "isNotExists (fst (blob_Delete E h (Name item) st))"
  then show "deleteGeneration_items E h (item # items) st
            = deleteGeneration_items E h items (snd (blob_Delete E h (Name item) st))"
    by (cases "blob_Delete E h (Name item) st") simp
qed

theorem not_found_delete_is_success_witness:
  "isNotExists (fst (blob_Delete mem_env mem_handle
       ''generations/0123456789abcdef/snapshots/00000000.snapshot.lz4'' \<lparr>blobs = [], denied = []\<rparr>))
   \<and> DeleteSnapshot mem_env mem_client0 mem_generation 0 \<lparr>blobs = [], denied = []\<rparr>
       = Return (None, mem_client, \<lparr>blobs = [], denied = []\<rparr>)
   \<and> deleteWALSegments_loop mem_env mem_client
         [\<lparr>p_Generation = mem_generation, p_Index = 0, p_Offset = 0\<rparr>] \<lparr>blobs = [], denied = []\<rparr>
       = Return (None, \<lparr>blobs = [], denied = []\<rparr>)
   \<and> deleteGeneration_items mem_env mem_handle
         [\<lparr>Name = ''generations/0123456789abcdef/wal/00000000_00000000.wal.lz4'',
           ContentLength = Some 1, CreationTime = None\<rparr>] \<lparr>blobs = [], denied = []\<rparr>
       = (None, \<lparr>blobs = [], denied = []\<rparr>)"
proof -
  let ?st = "\<lparr>blobs = [], denied = []\<rparr>"
  let ?skey = "''generations/0123456789abcdef/snapshots/00000000.snapshot.lz4''"
  let ?wkey = "''generations/0123456789abcdef/wal/00000000_00000000.wal.lz4''"
  let ?pos = "\<lparr>p_Generation = mem_generation, p_Index = 0, p_Offset = 0\<rparr>"
  let ?item = "\<lparr>Name = ?wkey, ContentLength = Some 1, CreationTime = None\<rparr>"
  have h: "the (containerURL mem_client) = mem_handle" by code_simp
  have a1: "Init mem_env mem_client0 = (None, mem_client)" by (rule mem_client_init)
  have a2: "SnapshotPath mem_env (path mem_client) mem_generation 0 = Inr ?skey" by code_simp
  have a3: "isNotExists (fst (blob_Delete mem_env mem_handle ?skey ?st))" by code_simp
  have a4: "snd (blob_Delete mem_env mem_handle ?skey ?st) = ?st" by code_simp
  have b1: "WALSegmentPath mem_env (path mem_client) (p_Generation ?pos) (p_Index ?pos) (p_Offset ?pos)
              = Inr ?wkey" by code_simp
  have b2: "containerURL mem_client = Some mem_handle" by code_simp
  have b3: "isNotExists (fst (blob_Delete mem_env mem_handle ?wkey ?st))" by code_simp
  have b4: "snd (blob_Delete mem_env mem_handle ?wkey ?st) = ?st" by code_simp
  have c1: "isNotExists (fst (blob_Delete mem_env mem_handle (Name ?item) ?st))" by code_simp
  have c2: "snd (blob_Delete mem_env mem_handle (Name ?item) ?st) = ?st" by code_simp
  note T = not_found_delete_is_success[of mem_env mem_client0 mem_client mem_generation 0 ?skey ?st
      ?pos ?wkey mem_handle "[]" ?item "[]"]
  have r1: "DeleteSnapshot mem_env mem_client0 mem_generation 0 ?st
       = Return (None, mem_client, ?st)"
    using T[THEN conjunct1] a1 a2 a3 a4 h by simp
  have r2: "deleteWALSegments_loop mem_env mem_client [?pos] ?st = Return (None, ?st)"
    using T[THEN conjunct2, THEN conjunct1] b1 b2 b3 b4 by simp
  have r3: "deleteGeneration_items mem_env mem_handle [?item] ?st = (None, ?st)"
    using T[THEN conjunct2, THEN conjunct2] c1 c2 by simp
  from a3 r1 r2 r3 show ?thesis by blast
qed

lemma deleteWALSegments_loop_append:
  "deleteWALSegments_loop E c (xs @ ys) st =
     (case deleteWALSegments_loop E c xs st of
        Return (None, st1) \<Rightarrow> deleteWALSegments_loop E c ys st1
      | r \<Rightarrow> r)"
  by (induction xs arbitrary: st) (auto split: sum.splits option.splits prod.splits)

lemma deleteWALSegments_loop_error:
  "deleteWALSegments_loop E c a st = Return (Some e, st') \<Longrightarrow>
     \<exists>pre p suf st1. a = pre @ p # suf
       \<and> deleteWALSegments_loop E c pre st = Return (None, st1)
       \<and> ((\<exists>err. WALSegmentPath E (path c) (p_Generation p) (p_Index p) (p_Offset p) = Inl err
               \<and> e = Errorf ''cannot determine wal segment path: %w'' [] (Some err) \<and> st' = st1)
          \<or> (\<exists>key h err. WALSegmentPath E (path c) (p_Generation p) (p_Index p) (p_Offset p) = Inr key
               \<and> containerURL c = Some h
               \<and> blob_Delete E h key st1 = (Some err, st') \<and> isNotExists (Some err) = False
               \<and> e = Errorf ''cannot delete wal segment %q: %w'' [key] (Some err)))"
proof (induction a arbitrary: st)
  case Nil
  then show ?case by simp
next
  case (Cons p a)
  show ?case
  proof (cases "WALSegmentPath E (path c) (p_Generation p) (p_Index p) (p_Offset p)")
    case (Inl err)
    with Cons.prems have "e = Errorf ''cannot determine wal segment path: %w'' [] (Some err) \<and> st' = st"
      by simp
    with Inl show ?thesis
      by (intro exI[of _ "[]"] exI[of _ p] exI[of _ a] exI[of _ st]) simp
  next
    case (Inr key)
    with Cons.prems obtain h where h: "containerURL c = Some h"
      by (auto split: option.splits)
    obtain r st2 where d: "blob_Delete E h key st = (r, st2)" by (cases "blob_Delete E h key st")
    show ?thesis
    proof (cases "isNotExists r \<or> r = None")
      case True
      with Cons.prems Inr h d have "deleteWALSegments_loop E c a st2 = Return (Some e, st')"
        by (auto split: if_splits)
      from Cons.IH[OF this] obtain pre q suf st1 where
        IH: "a = pre @ q # suf" "deleteWALSegments_loop E c pre st2 = Return (None, st1)"
          "((\<exists>err. WALSegmentPath E (path c) (p_Generation q) (p_Index q) (p_Offset q) = Inl err
               \<and> e = Errorf ''cannot determine wal segment path: %w'' [] (Some err) \<and> st' = st1)
          \<or> (\<exists>key h err. WALSegmentPath E (path c) (p_Generation q) (p_Index q) (p_Offset q) = Inr key
               \<and> containerURL c = Some h
               \<and> blob_Delete E h key st1 = (Some err, st') \<and> isNotExists (Some err) = False
               \<and> e = Errorf ''cannot delete wal segment %q: %w'' [key] (Some err)))"
        by blast
      have "deleteWALSegments_loop E c (p # pre) st = Return (None, st1)"
        using True Inr h d IH(2) by auto
      with IH(1,3) show ?thesis
        by (intro exI[of _ "p # pre"] exI[of _ q] exI[of _ suf] exI[of _ st1]) simp
    next
      case False
      then obtain err where r: "r = Some err" by auto
      with False Cons.prems Inr h d
      have "e = Errorf ''cannot delete wal segment %q: %w'' [key] (Some err) \<and> st' = st2"
        by auto
      with Inr h d r False show ?thesis
        by (intro exI[of _ "[]"] exI[of _ p] exI[of _ a] exI[of _ st]) auto
    qed
  qed
qed

lemma DeleteWALSegments_loop:
  "Init E c = (None, c') \<Longrightarrow>
     DeleteWALSegments E c a st =
       (case deleteWALSegments_loop E c' a st of
          Panic \<Rightarrow> Panic
        | Return (err, st') \<Rightarrow> Return (err, c', st'))"
  by (simp add: DeleteWALSegments_def)

lemma deleteWALSegments_loop_no_panic:
  "containerURL c = Some h \<Longrightarrow> deleteWALSegments_loop E c a st \<noteq> Panic"
  by (induction a arbitrary: st) (auto split: sum.splits prod.splits)

text \<open>
  C4: \<open>DeleteWALSegments\<close> works through its positions in order and returns at the first
  position whose path cannot be encoded or whose delete fails with an error other than
  not-found: the store is then as that position left it, whatever positions follow, so
  none of them is deleted. It never panics, and an error it returns always comes from
  such a position; so when every path encodes and every delete succeeds or answers
  not-found, it returns nil.
\<close>

theorem DeleteWALSegments_aborts_at_first_error:
  assumes "Init E c = (None, c')"
  shows
    "(deleteWALSegments_loop E c' pre st = Return (None, st1)
        \<and> WALSegmentPath E (path c') (p_Generation p) (p_Index p) (p_Offset p) = Inl err
      \<longrightarrow> DeleteWALSegments E c (pre @ p # suf) st
            = Return (Some (Errorf ''cannot determine wal segment path: %w'' [] (Some err)), c', st1))
     \<and> (deleteWALSegments_loop E c' pre st = Return (None, st1)
        \<and> WALSegmentPath E (path c') (p_Generation p) (p_Index p) (p_Offset p) = Inr key
        \<and> blob_Delete E (the (containerURL c')) key st1 = (Some e, st2)
        \<and> isNotExists (Some e) = False
      \<longrightarrow> DeleteWALSegments E c (pre @ p # suf) st
            = Return (Some (Errorf ''cannot delete wal segment %q: %w'' [key] (Some e)), c', st2))
     \<and> DeleteWALSegments E c a st \<noteq> Panic
     \<and> (\<forall>e' st'. DeleteWALSegments E c a st = Return (Some e', c', st') \<longrightarrow>
          (\<exists>pre p suf st1. a = pre @ p # suf
             \<and> deleteWALSegments_loop E c' pre st = Return (None, st1)
             \<and> ((\<exists>err. WALSegmentPath E (path c') (p_Generation p) (p_Index p) (p_Offset p) = Inl err
                     \<and> e' = Errorf ''cannot determine wal segment path: %w'' [] (Some err)
                     \<and> st' = st1)
                \<or> (\<exists>key h err.
                       WALSegmentPath E (path c') (p_Generation p) (p_Index p) (p_Offset p) = Inr key
                     \<and> containerURL c' = Some h
                     \<and> blob_Delete E h key st1 = (Some err, st')
                     \<and> isNotExists (Some err) = False
                     \<and> e' = Errorf ''cannot delete wal segment %q: %w'' [key] (Some err)))))"
proof -
  from assms obtain h where h: "containerURL c' = Some h" using Init_handle by blast
  note D = DeleteWALSegments_loop[OF assms]
  have A: "DeleteWALSegments E c (pre @ p # suf) st
            = Return (Some (Errorf ''cannot determine wal segment path: %w'' [] (Some err)), c', st1)"
    if "deleteWALSegments_loop E c' pre st = Return (None, st1)"
       "WALSegmentPath E (path c') (p_Generation p) (p_Index p) (p_Offset p) = Inl err"
    using that by (simp add: D deleteWALSegments_loop_append)
  have B: "DeleteWALSegments E c (pre @ p # suf) st
            = Return (Some (Errorf ''cannot delete wal segment %q: %w'' [key] (Some e)), c', st2)"
    if "deleteWALSegments_loop E c' pre st = Return (None, st1)"
       "WALSegmentPath E (path c') (p_Generation p) (p_Index p) (p_Offset p) = Inr key"
       "blob_Delete E (the (containerURL c')) key st1 = (Some e, st2)"
       "isNotExists (Some e) = False"
    using that h by (simp add: D deleteWALSegments_loop_append)
  have P: "DeleteWALSegments E c a st \<noteq> Panic"
    using deleteWALSegments_loop_no_panic[OF h, of E a st]
    by (simp add: D split: outcome.splits prod.splits)
  have C: "\<exists>pre p suf st1. a = pre @ p # suf
             \<and> deleteWALSegments_loop E c' pre st = Return (None, st1)
             \<and> ((\<exists>err. WALSegmentPath E (path c') (p_Generation p) (p_Index p) (p_Offset p) = Inl err
                     \<and> e' = Errorf ''cannot determine wal segment path: %w'' [] (Some err)
                     \<and> st' = st1)
                \<or> (\<exists>key h err.
                       WALSegmentPath E (path c') (p_Generation p) (p_Index p) (p_Offset p) = Inr key
                     \<and> containerURL c' = Some h
                     \<and> blob_Delete E h key st1 = (Some err, st')
                     \<and> isNotExists (Some err) = False
                     \<and> e' = Errorf ''cannot delete wal segment %q: %w'' [key] (Some err)))"
    if "DeleteWALSegments E c a st = Return (Some e', c', st')" for e' st'
  proof -
    from that have "deleteWALSegments_loop E c' a st = Return (Some e', st')"
      by (auto simp: D split: outcome.splits prod.splits)
    then show ?thesis by (rule deleteWALSegments_loop_error)
  qed
  show ?thesis
    using A B P C by blast
qed

theorem DeleteWALSegments_aborts_at_first_error_witness:
  "deleteWALSegments_loop mem_env mem_client
       [\<lparr>p_Generation = mem_generation, p_Index = 0, p_Offset = 0\<rparr>]
       \<lparr>blobs = [(''generations/0123456789abcdef/wal/00000000_00000000.wal.lz4'', ''a''),
                 (''generations/0123456789abcdef/wal/00000001_00000000.wal.lz4'', ''b''),
                 (''generations/0123456789abcdef/wal/00000002_00000000.wal.lz4'', ''c'')],
        denied = [''generations/0123456789abcdef/wal/00000001_00000000.wal.lz4'']\<rparr>
     = Return (None,
       \<lparr>blobs = [(''generations/0123456789abcdef/wal/00000001_00000000.wal.lz4'', ''b''),
                 (''generations/0123456789abcdef/wal/00000002_00000000.wal.lz4'', ''c'')],
        denied = [''generations/0123456789abcdef/wal/00000001_00000000.wal.lz4'']\<rparr>)
   \<and> DeleteWALSegments mem_env mem_client0
       [\<lparr>p_Generation = mem_generation, p_Index = 0, p_Offset = 0\<rparr>,
        \<lparr>p_Generation = mem_generation, p_Index = 1, p_Offset = 0\<rparr>,
        \<lparr>p_Generation = mem_generation, p_Index = 2, p_Offset = 0\<rparr>]
       \<lparr>blobs = [(''generations/0123456789abcdef/wal/00000000_00000000.wal.lz4'', ''a''),
                 (''generations/0123456789abcdef/wal/00000001_00000000.wal.lz4'', ''b''),
                 (''generations/0123456789abcdef/wal/00000002_00000000.wal.lz4'', ''c'')],
        denied = [''generations/0123456789abcdef/wal/00000001_00000000.wal.lz4'']\<rparr>
     = Return (Some (Errorf ''cannot delete wal segment %q: %w''
                  [''generations/0123456789abcdef/wal/00000001_00000000.wal.lz4'']
                  (Some (StorageError ''AuthorizationFailure''))),
          mem_client,
          \<lparr>blobs = [(''generations/0123456789abcdef/wal/00000001_00000000.wal.lz4'', ''b''),
                    (''generations/0123456789abcdef/wal/00000002_00000000.wal.lz4'', ''c'')],
           denied = [''generations/0123456789abcdef/wal/00000001_00000000.wal.lz4'']\<rparr>)
   \<and> DeleteWALSegments mem_env mem_client0
       [\<lparr>p_Generation = mem_generation, p_Index = 0, p_Offset = 0\<rparr>,
        \<lparr>p_Generation = ''not a generation'', p_Index = 1, p_Offset = 0\<rparr>,
        \<lparr>p_Generation = mem_generation, p_Index = 2, p_Offset = 0\<rparr>]
       \<lparr>blobs = [(''generations/0123456789abcdef/wal/00000000_00000000.wal.lz4'', ''a''),
                 (''generations/0123456789abcdef/wal/00000001_00000000.wal.lz4'', ''b''),
                 (''generations/0123456789abcdef/wal/00000002_00000000.wal.lz4'', ''c'')],
        denied = [''generations/0123456789abcdef/wal/00000001_00000000.wal.lz4'']\<rparr>
     = Return (Some (Errorf ''cannot determine wal segment path: %w'' []
                  (Some (OtherError ''InvalidGeneration''))),
          mem_client,
          \<lparr>blobs = [(''generations/0123456789abcdef/wal/00000001_00000000.wal.lz4'', ''b''),
                    (''generations/0123456789abcdef/wal/00000002_00000000.wal.lz4'', ''c'')],
           denied = [''generations/0123456789abcdef/wal/00000001_00000000.wal.lz4'']\<rparr>)"
proof -
  let ?k0 = "''generations/0123456789abcdef/wal/00000000_00000000.wal.lz4''"
  let ?k1 = "''generations/0123456789abcdef/wal/00000001_00000000.wal.lz4''"
  let ?k2 = "''generations/0123456789abcdef/wal/00000002_00000000.wal.lz4''"
  let ?st = "\<lparr>blobs = [(?k0, ''a''), (?k1, ''b''), (?k2, ''c'')], denied = [?k1]\<rparr>"
  let ?st1 = "\<lparr>blobs = [(?k1, ''b''), (?k2, ''c'')], denied = [?k1]\<rparr>"
  let ?p0 = "\<lparr>p_Generation = mem_generation, p_Index = 0, p_Offset = 0\<rparr>"
  let ?p1 = "\<lparr>p_Generation = mem_generation, p_Index = 1, p_Offset = 0\<rparr>"
  let ?p2 = "\<lparr>p_Generation = mem_generation, p_Index = 2, p_Offset = 0\<rparr>"
  let ?bad = "\<lparr>p_Generation = ''not a generation'', p_Index = 1, p_Offset = 0\<rparr>"
  have pre: "deleteWALSegments_loop mem_env mem_client [?p0] ?st = Return (None, ?st1)"
    by code_simp
  have k1: "WALSegmentPath mem_env (path mem_client) (p_Generation ?p1) (p_Index ?p1) (p_Offset ?p1)
              = Inr ?k1"
    by code_simp
  have d1: "blob_Delete mem_env (the (containerURL mem_client)) ?k1 ?st1
              = (Some (StorageError ''AuthorizationFailure''), ?st1)"
    by code_simp
  have n1: "isNotExists (Some (StorageError ''AuthorizationFailure'')) = False"
    by code_simp
  have kb: "WALSegmentPath mem_env (path mem_client) (p_Generation ?bad) (p_Index ?bad) (p_Offset ?bad)
              = Inl (OtherError ''InvalidGeneration'')"
    by code_simp
  note T = DeleteWALSegments_aborts_at_first_error[OF mem_client_init]
  have B: "DeleteWALSegments mem_env mem_client0 ([?p0] @ ?p1 # [?p2]) ?st
     = Return (Some (Errorf ''cannot delete wal segment %q: %w'' [?k1]
                  (Some (StorageError ''AuthorizationFailure''))), mem_client, ?st1)"
    using T[of "[?p0]" ?st ?st1 ?p1 _ _ ?k1 "StorageError ''AuthorizationFailure''" ?st1,
            THEN conjunct2, THEN conjunct1] pre k1 d1 n1
    by blast
  have A: "DeleteWALSegments mem_env mem_client0 ([?p0] @ ?bad # [?p2]) ?st
     = Return (Some (Errorf ''cannot determine wal segment path: %w'' []
                  (Some (OtherError ''InvalidGeneration''))), mem_client, ?st1)"
    using T[of "[?p0]" ?st ?st1 ?bad "OtherError ''InvalidGeneration''", THEN conjunct1] pre kb
    by blast
  from pre A B show ?thesis by simp
qed

subsection \<open>Reading\<close>

text \<open>
  C5: when the store answers the download of \<open>SnapshotReader\<close> or \<open>WALSegmentReader\<close> with
  not-found, the operation fails with \<open>os.ErrNotExist\<close>, which is no storage error; every
  other error of the download is returned wrapped by \<open>fmt.Errorf\<close> with the key as its
  operand.
\<close>

theorem readers_translate_not_found:
  assumes "Init E c = (None, c')"
  shows
    "(SnapshotPath E (path c') generation index = Inr key
        \<and> blob_Download E (the (containerURL c')) key st = (Inl err, st')
      \<longrightarrow> SnapshotReader E c generation index st
            = Return (Inl (if isNotExists (Some err) then ErrNotExist
                           else Errorf ''cannot start new reader for %q: %w'' [key] (Some err)),
                      c', st'))
     \<and> (WALSegmentPath E (path c') (p_Generation pos) (p_Index pos) (p_Offset pos) = Inr wkey
        \<and> blob_Download E (the (containerURL c')) wkey st = (Inl werr, wst')
      \<longrightarrow> WALSegmentReader E c pos st
            = Return (Inl (if isNotExists (Some werr) then ErrNotExist
                           else Errorf ''cannot start new reader for %q: %w'' [wkey] (Some werr)),
                      c', wst'))
     \<and> (\<forall>code. ErrNotExist \<noteq> StorageError code)"
proof -
  from assms obtain h where h: "containerURL c' = Some h" using Init_handle by blast
  show ?thesis
    using assms h by (simp add: SnapshotReader_def WALSegmentReader_def)
qed

theorem readers_translate_not_found_witness:
  "SnapshotReader mem_env mem_client0 mem_generation 7
       \<lparr>blobs = [], denied = [''generations/0123456789abcdef/wal/00000001_00000000.wal.lz4'']\<rparr>
     = Return (Inl ErrNotExist, mem_client,
         \<lparr>blobs = [], denied = [''generations/0123456789abcdef/wal/00000001_00000000.wal.lz4'']\<rparr>)
   \<and> WALSegmentReader mem_env mem_client0
       \<lparr>p_Generation = mem_generation, p_Index = 1, p_Offset = 0\<rparr>
       \<lparr>blobs = [], denied = [''generations/0123456789abcdef/wal/00000001_00000000.wal.lz4'']\<rparr>
     = Return (Inl (Errorf ''cannot start new reader for %q: %w''
                  [''generations/0123456789abcdef/wal/00000001_00000000.wal.lz4'']
                  (Some (StorageError ''AuthorizationFailure''))), mem_client,
         \<lparr>blobs = [], denied = [''generations/0123456789abcdef/wal/00000001_00000000.wal.lz4'']\<rparr>)"
proof -
  let ?k1 = "''generations/0123456789abcdef/wal/00000001_00000000.wal.lz4''"
  let ?ks = "''generations/0123456789abcdef/snapshots/00000007.snapshot.lz4''"
  let ?st = "\<lparr>blobs = [], denied = [?k1]\<rparr>"
  let ?p1 = "\<lparr>p_Generation = mem_generation, p_Index = 1, p_Offset = 0\<rparr>"
  have s1: "SnapshotPath mem_env (path mem_client) mem_generation 7 = Inr ?ks" by code_simp
  have s2: "blob_Download mem_env (the (containerURL mem_client)) ?ks ?st
              = (Inl (StorageError ServiceCodeBlobNotFound), ?st)" by code_simp
  have s3: "isNotExists (Some (StorageError ServiceCodeBlobNotFound))" by code_simp
  have w1: "WALSegmentPath mem_env (path mem_client) (p_Generation ?p1) (p_Index ?p1) (p_Offset ?p1)
              = Inr ?k1" by code_simp
  have w2: "blob_Download mem_env (the (containerURL mem_client)) ?k1 ?st
              = (Inl (StorageError ''AuthorizationFailure''), ?st)" by code_simp
  have w3: "isNotExists (Some (StorageError ''AuthorizationFailure'')) = False" by code_simp
  note T = readers_translate_not_found[OF mem_client_init,
      of mem_generation 7 ?ks ?st "StorageError ServiceCodeBlobNotFound" ?st ?p1 ?k1
         "StorageError ''AuthorizationFailure''" ?st]
  have r1: "SnapshotReader mem_env mem_client0 mem_generation 7 ?st
     = Return (Inl ErrNotExist, mem_client, ?st)"
    using T[THEN conjunct1] s1 s2 s3 by simp
  have r2: "WALSegmentReader mem_env mem_client0 ?p1 ?st
     = Return (Inl (Errorf ''cannot start new reader for %q: %w'' [?k1]
                  (Some (StorageError ''AuthorizationFailure''))), mem_client, ?st)"
    using T[THEN conjunct2, THEN conjunct1] w1 w2 w3 by simp
  from r1 r2 show ?thesis by simp
qed

subsection \<open>Writing\<close>

lemma Reader_Read_consumes:
  "Reader_Read r k = ((bs, eof), r') \<Longrightarrow> rd_data r = bs @ rd_data r'"
  by (auto simp: Reader_Read_def split: if_splits)

lemma ReadCounter_Read_counts:
  assumes "ReadCounter_Read rc k = ((bs, eof), rc')"
  shows "rd_data (rc_r rc) = bs @ rd_data (rc_r rc') \<and> rc_n rc' = rc_n rc + int (length bs)"
proof -
  obtain r' where r: "Reader_Read (rc_r rc) k = ((bs, eof), r')" and rc': "rc' = \<lparr>rc_r = r', rc_n = rc_n rc + int (length bs)\<rparr>"
    using assms by (auto simp: ReadCounter_Read_def split: prod.splits)
  from Reader_Read_consumes[OF r] rc' show ?thesis by simp
qed

lemma run_upload_counts:
  "run_upload up rc = (err, st', rc') \<Longrightarrow>
     (\<exists>bs. rd_data (rc_r rc) = bs @ rd_data (rc_r rc') \<and> rc_n rc' = rc_n rc + int (length bs))"
proof (induction up arbitrary: rc)
  case (Finish e s)
  then show ?case by simp
next
  case (ReadCall k f)
  obtain bs eof rc1 where r: "ReadCounter_Read rc k = ((bs, eof), rc1)"
    by (metis prod.exhaust)
  with ReadCall.prems have run: "run_upload (f bs eof) rc1 = (err, st', rc')" by simp
  have "f bs eof \<in> range (f bs)" "f bs \<in> range f" by auto
  from ReadCall.IH[OF this(2) this(1) run] obtain cs where
    cs: "rd_data (rc_r rc1) = cs @ rd_data (rc_r rc')" "rc_n rc' = rc_n rc1 + int (length cs)"
    by blast
  from ReadCounter_Read_counts[OF r] cs
  have "rd_data (rc_r rc) = (bs @ cs) @ rd_data (rc_r rc') \<and> rc_n rc' = rc_n rc + int (length (bs @ cs))"
    by simp
  then show ?case by blast
qed

text \<open>
  C6: a successful \<open>WriteSnapshot\<close> or \<open>WriteWALSegment\<close> returns an info record with the
  coordinates it was given, with \<open>Size\<close> the number of bytes that the upload took from \<open>rd\<close>
  (the bytes of \<open>rd\<close> before are those bytes followed by the bytes of \<open>rd\<close> after), and with
  \<open>CreatedAt\<close> the clock reading taken before the upload, in UTC: nothing the store
  reports enters it.
\<close>

theorem write_info_from_call:
  "(WriteSnapshot E c generation index rd now st = Return (info, None, c', st', rd')
      \<longrightarrow> s_Generation info = generation \<and> s_Index info = index
          \<and> s_CreatedAt info = Time_UTC now
          \<and> (\<exists>bs. rd_data rd = bs @ rd_data rd' \<and> s_Size info = int (length bs)))
   \<and> (WriteWALSegment E c pos rd now st = Return (winfo, None, c', st', rd')
      \<longrightarrow> w_Generation winfo = p_Generation pos \<and> w_Index winfo = p_Index pos
          \<and> w_Offset winfo = p_Offset pos
          \<and> w_CreatedAt winfo = Time_UTC now
          \<and> (\<exists>bs. rd_data rd = bs @ rd_data rd' \<and> w_Size winfo = int (length bs)))"
proof (rule conjI; rule impI)
  assume a: "WriteSnapshot E c generation index rd now st = Return (info, None, c', st', rd')"
  then obtain c1 key h rc' where
    u: "run_upload (UploadStreamToBlockBlob E h key st) (NewReadCounter rd) = (None, st', rc')"
    and i: "info = \<lparr>s_Generation = generation, s_Index = index, s_Size = N rc',
                     s_CreatedAt = Time_UTC now\<rparr>"
    and r: "rd' = rc_r rc'"
    by (auto simp: WriteSnapshot_def Let_def
             split: prod.splits option.splits sum.splits if_splits)
  from run_upload_counts[OF u] obtain bs where
    "rd_data rd = bs @ rd_data rd'" "N rc' = int (length bs)"
    using r by (auto simp: NewReadCounter_def N_def)
  with i show "s_Generation info = generation \<and> s_Index info = index
          \<and> s_CreatedAt info = Time_UTC now
          \<and> (\<exists>bs. rd_data rd = bs @ rd_data rd' \<and> s_Size info = int (length bs))"
    by auto
next
  assume a: "WriteWALSegment E c pos rd now st = Return (winfo, None, c', st', rd')"
  then obtain c1 key h rc' where
    u: "run_upload (UploadStreamToBlockBlob E h key st) (NewReadCounter rd) = (None, st', rc')"
    and i: "winfo = \<lparr>w_Generation = p_Generation pos, w_Index = p_Index pos,
                      w_Offset = p_Offset pos, w_Size = N rc', w_CreatedAt = Time_UTC now\<rparr>"
    and r: "rd' = rc_r rc'"
    by (auto simp: WriteWALSegment_def Let_def
             split: prod.splits option.splits sum.splits if_splits)
  from run_upload_counts[OF u] obtain bs where
    "rd_data rd = bs @ rd_data rd'" "N rc' = int (length bs)"
    using r by (auto simp: NewReadCounter_def N_def)
  with i show "w_Generation winfo = p_Generation pos \<and> w_Index winfo = p_Index pos
          \<and> w_Offset winfo = p_Offset pos
          \<and> w_CreatedAt winfo = Time_UTC now
          \<and> (\<exists>bs. rd_data rd = bs @ rd_data rd' \<and> w_Size winfo = int (length bs))"
    by auto
qed

theorem write_info_from_call_witness:
  "WriteSnapshot mem_env mem_client0 mem_generation 0 \<lparr>rd_data = ''0123456789''\<rparr>
       \<lparr>instant = 1700000000, location = LocLocal\<rparr> \<lparr>blobs = [], denied = []\<rparr>
     = Return (\<lparr>s_Generation = mem_generation, s_Index = 0, s_Size = 10,
                s_CreatedAt = \<lparr>instant = 1700000000, location = LocUTC\<rparr>\<rparr>,
               None, mem_client,
               \<lparr>blobs = [(''generations/0123456789abcdef/snapshots/00000000.snapshot.lz4'',
                           ''0123456789'')], denied = []\<rparr>,
               \<lparr>rd_data = []\<rparr>)
   \<and> (\<exists>bs. ''0123456789'' = bs @ [] \<and> (10::int) = int (length bs))
   \<and> WriteWALSegment mem_env mem_client0
       \<lparr>p_Generation = mem_generation, p_Index = 1, p_Offset = 4096\<rparr> \<lparr>rd_data = ''abcde''\<rparr>
       \<lparr>instant = 1700000000, location = LocLocal\<rparr> \<lparr>blobs = [], denied = []\<rparr>
     = Return (\<lparr>w_Generation = mem_generation, w_Index = 1, w_Offset = 4096, w_Size = 5,
                w_CreatedAt = \<lparr>instant = 1700000000, location = LocUTC\<rparr>\<rparr>,
               None, mem_client,
               \<lparr>blobs = [(''generations/0123456789abcdef/wal/00000001_00001000.wal.lz4'',
                           ''abcde'')], denied = []\<rparr>,
               \<lparr>rd_data = []\<rparr>)
   \<and> (\<exists>bs. ''abcde'' = bs @ [] \<and> (5::int) = int (length bs))"
proof -
  have h1: "WriteSnapshot mem_env mem_client0 mem_generation 0 \<lparr>rd_data = ''0123456789''\<rparr>
       \<lparr>instant = 1700000000, location = LocLocal\<rparr> \<lparr>blobs = [], denied = []\<rparr>
     = Return (\<lparr>s_Generation = mem_generation, s_Index = 0, s_Size = 10,
                s_CreatedAt = \<lparr>instant = 1700000000, location = LocUTC\<rparr>\<rparr>,
               None, mem_client,
               \<lparr>blobs = [(''generations/0123456789abcdef/snapshots/00000000.snapshot.lz4'',
                           ''0123456789'')], denied = []\<rparr>,
               \<lparr>rd_data = []\<rparr>)"
    by code_simp
  have h2: "WriteWALSegment mem_env mem_client0
       \<lparr>p_Generation = mem_generation, p_Index = 1, p_Offset = 4096\<rparr> \<lparr>rd_data = ''abcde''\<rparr>
       \<lparr>instant = 1700000000, location = LocLocal\<rparr> \<lparr>blobs = [], denied = []\<rparr>
     = Return (\<lparr>w_Generation = mem_generation, w_Index = 1, w_Offset = 4096, w_Size = 5,
                w_CreatedAt = \<lparr>instant = 1700000000, location = LocUTC\<rparr>\<rparr>,
               None, mem_client,
               \<lparr>blobs = [(''generations/0123456789abcdef/wal/00000001_00001000.wal.lz4'',
                           ''abcde'')], denied = []\<rparr>,
               \<lparr>rd_data = []\<rparr>)"
    by code_simp
  have c1: "\<exists>bs. ''0123456789'' = bs @ [] \<and> (10::int) = int (length bs)"
    using write_info_from_call[THEN conjunct1, rule_format, OF h1] by simp
  have c2: "\<exists>bs. ''abcde'' = bs @ [] \<and> (5::int) = int (length bs)"
    using write_info_from_call[THEN conjunct2, rule_format, OF h2] by simp
  from h1 c1 h2 c2 show ?thesis by blast
qed

subsection \<open>Iterating\<close>

lemma fetch_items_skip:
  "(\<And>item. \<not> keep item \<Longrightarrow> entry item = Return None) \<Longrightarrow>
     fetch_items entry (filter keep items) = fetch_items entry items"
  by (induction items) (auto split: outcome.splits option.splits prod.splits)

lemma fetch_pages_skip:
  "(\<And>item. \<not> keep item \<Longrightarrow> entry item = Return None) \<Longrightarrow>
     fetch_pages entry (filter_listing keep l) = fetch_pages entry l"
  by (induction l) (simp_all add: fetch_items_skip)

lemma snapshot_entry_malformed:
  "isl (ParseSnapshotPath E (Base (Name item))) \<Longrightarrow> snapshot_entry E g item = Return None"
  by (auto simp: snapshot_entry_def isl_def)

lemma walSegment_entry_malformed:
  "isl (ParseWALSegmentPath E (Base (Name item))) \<Longrightarrow> walSegment_entry E g item = Return None"
  by (auto simp: walSegment_entry_def isl_def)

text \<open>
  C8: in both fetch loops an entry whose key fails the parse function is skipped: its turn
  of the loop body is a \<open>continue\<close>, and a listing from which any such entries are removed
  gives the same run of \<open>fetch\<close> (the same entries handed off, the same end) and the same
  sequence at the consumer.
\<close>

theorem malformed_keys_are_skipped:
  "((\<forall>item. \<not> keep item \<longrightarrow> isl (ParseSnapshotPath E (Base (Name item))))
      \<longrightarrow> (\<forall>item. \<not> keep item \<longrightarrow> snapshot_entry E g item = Return None)
          \<and> snapshotIterator_fetch E c g (filter_listing keep l) = snapshotIterator_fetch E c g l
          \<and> drain (newSnapshotIterator E g c (filter_listing keep l))
              = drain (newSnapshotIterator E g c l))
   \<and> ((\<forall>item. \<not> wkeep item \<longrightarrow> isl (ParseWALSegmentPath E (Base (Name item))))
      \<longrightarrow> (\<forall>item. \<not> wkeep item \<longrightarrow> walSegment_entry E g item = Return None)
          \<and> walSegmentIterator_fetch E c g (filter_listing wkeep l) = walSegmentIterator_fetch E c g l
          \<and> drain (newWALSegmentIterator E g c (filter_listing wkeep l))
              = drain (newWALSegmentIterator E g c l))"
proof (rule conjI; rule impI)
  assume a: "\<forall>item. \<not> keep item \<longrightarrow> isl (ParseSnapshotPath E (Base (Name item)))"
  then have e: "\<not> keep item \<Longrightarrow> snapshot_entry E g item = Return None" for item
    by (simp add: snapshot_entry_malformed)
  have f: "snapshotIterator_fetch E c g (filter_listing keep l) = snapshotIterator_fetch E c g l"
    by (simp add: snapshotIterator_fetch_def fetch_pages_skip[of keep, OF e] split: sum.splits option.splits)
  then have "newSnapshotIterator E g c (filter_listing keep l) = newSnapshotIterator E g c l"
    by (simp add: newSnapshotIterator_def)
  with e f show "(\<forall>item. \<not> keep item \<longrightarrow> snapshot_entry E g item = Return None)
          \<and> snapshotIterator_fetch E c g (filter_listing keep l) = snapshotIterator_fetch E c g l
          \<and> drain (newSnapshotIterator E g c (filter_listing keep l))
              = drain (newSnapshotIterator E g c l)"
    by simp
next
  assume a: "\<forall>item. \<not> wkeep item \<longrightarrow> isl (ParseWALSegmentPath E (Base (Name item)))"
  then have e: "\<not> wkeep item \<Longrightarrow> walSegment_entry E g item = Return None" for item
    by (simp add: walSegment_entry_malformed)
  have f: "walSegmentIterator_fetch E c g (filter_listing wkeep l) = walSegmentIterator_fetch E c g l"
    by (simp add: walSegmentIterator_fetch_def fetch_pages_skip[of wkeep, OF e] split: sum.splits option.splits)
  then have "newWALSegmentIterator E g c (filter_listing wkeep l) = newWALSegmentIterator E g c l"
    by (simp add: newWALSegmentIterator_def)
  with e f show "(\<forall>item. \<not> wkeep item \<longrightarrow> walSegment_entry E g item = Return None)
          \<and> walSegmentIterator_fetch E c g (filter_listing wkeep l) = walSegmentIterator_fetch E c g l
          \<and> drain (newWALSegmentIterator E g c (filter_listing wkeep l))
              = drain (newWALSegmentIterator E g c l)"
    by simp
qed

theorem malformed_keys_are_skipped_witness:
  "snapshot_entry mem_env mem_generation
       \<lparr>Name = ''not-a-valid-key'', ContentLength = None, CreationTime = None\<rparr> = Return None
   \<and> snapshotIterator_fetch mem_env mem_client mem_generation
       (Page [\<lparr>Name = ''generations/0123456789abcdef/snapshots/00000000.snapshot.lz4'',
               ContentLength = Some 10, CreationTime = Some \<lparr>instant = 5, location = LocLocal\<rparr>\<rparr>,
              \<lparr>Name = ''not-a-valid-key'', ContentLength = None, CreationTime = None\<rparr>]
          (LastPage [\<lparr>Name = ''generations/0123456789abcdef/snapshots/00000001.snapshot.lz4'',
               ContentLength = Some 20, CreationTime = Some \<lparr>instant = 6, location = LocLocal\<rparr>\<rparr>]))
     = ([\<lparr>s_Generation = mem_generation, s_Index = 0, s_Size = 10,
          s_CreatedAt = \<lparr>instant = 5, location = LocUTC\<rparr>\<rparr>,
         \<lparr>s_Generation = mem_generation, s_Index = 1, s_Size = 20,
          s_CreatedAt = \<lparr>instant = 6, location = LocUTC\<rparr>\<rparr>], Return None)
   \<and> walSegment_entry mem_env mem_generation
       \<lparr>Name = ''not-a-valid-key'', ContentLength = None, CreationTime = None\<rparr> = Return None
   \<and> walSegmentIterator_fetch mem_env mem_client mem_generation
       (LastPage [\<lparr>Name = ''not-a-valid-key'', ContentLength = None, CreationTime = None\<rparr>,
              \<lparr>Name = ''generations/0123456789abcdef/wal/00000001_00001000.wal.lz4'',
               ContentLength = Some 20, CreationTime = Some \<lparr>instant = 6, location = LocLocal\<rparr>\<rparr>])
     = ([\<lparr>w_Generation = mem_generation, w_Index = 1, w_Offset = 4096, w_Size = 20,
          w_CreatedAt = \<lparr>instant = 6, location = LocUTC\<rparr>\<rparr>], Return None)"
proof -
  let ?keep = "\<lambda>item. Name item \<noteq> ''not-a-valid-key''"
  let ?bad = "\<lparr>Name = ''not-a-valid-key'', ContentLength = None, CreationTime = None\<rparr>"
  let ?a = "\<lparr>Name = ''generations/0123456789abcdef/snapshots/00000000.snapshot.lz4'',
               ContentLength = Some 10, CreationTime = Some \<lparr>instant = 5, location = LocLocal\<rparr>\<rparr>"
  let ?b = "\<lparr>Name = ''generations/0123456789abcdef/snapshots/00000001.snapshot.lz4'',
               ContentLength = Some 20, CreationTime = Some \<lparr>instant = 6, location = LocLocal\<rparr>\<rparr>"
  let ?w = "\<lparr>Name = ''generations/0123456789abcdef/wal/00000001_00001000.wal.lz4'',
               ContentLength = Some 20, CreationTime = Some \<lparr>instant = 6, location = LocLocal\<rparr>\<rparr>"
  have "isl (ParseSnapshotPath mem_env (Base ''not-a-valid-key''))" by code_simp
  then have hs: "\<forall>item. \<not> ?keep item \<longrightarrow> isl (ParseSnapshotPath mem_env (Base (Name item)))"
    by simp
  have "isl (ParseWALSegmentPath mem_env (Base ''not-a-valid-key''))" by code_simp
  then have hw: "\<forall>item. \<not> ?keep item \<longrightarrow> isl (ParseWALSegmentPath mem_env (Base (Name item)))"
    by simp
  have fs: "filter_listing ?keep (Page [?a, ?bad] (LastPage [?b])) = Page [?a] (LastPage [?b])"
    by simp
  have fw: "filter_listing ?keep (LastPage [?bad, ?w]) = LastPage [?w]"
    by simp
  have es: "snapshotIterator_fetch mem_env mem_client mem_generation (Page [?a] (LastPage [?b]))
     = ([\<lparr>s_Generation = mem_generation, s_Index = 0, s_Size = 10,
          s_CreatedAt = \<lparr>instant = 5, location = LocUTC\<rparr>\<rparr>,
         \<lparr>s_Generation = mem_generation, s_Index = 1, s_Size = 20,
          s_CreatedAt = \<lparr>instant = 6, location = LocUTC\<rparr>\<rparr>], Return None)"
    by code_simp
  have ew: "walSegmentIterator_fetch mem_env mem_client mem_generation (LastPage [?w])
     = ([\<lparr>w_Generation = mem_generation, w_Index = 1, w_Offset = 4096, w_Size = 20,
          w_CreatedAt = \<lparr>instant = 6, location = LocUTC\<rparr>\<rparr>], Return None)"
    by code_simp
  note S = malformed_keys_are_skipped[of ?keep mem_env mem_generation mem_client
      "Page [?a, ?bad] (LastPage [?b])", THEN conjunct1, THEN mp, OF hs]
  note W = malformed_keys_are_skipped[of _ mem_env mem_generation mem_client
      "LastPage [?bad, ?w]" ?keep, THEN conjunct2, THEN mp, OF hw]
  have r1: "snapshot_entry mem_env mem_generation ?bad = Return None"
    using S[THEN conjunct1, rule_format, of ?bad] by simp
  have r2: "snapshotIterator_fetch mem_env mem_client mem_generation (Page [?a, ?bad] (LastPage [?b]))
     = ([\<lparr>s_Generation = mem_generation, s_Index = 0, s_Size = 10,
          s_CreatedAt = \<lparr>instant = 5, location = LocUTC\<rparr>\<rparr>,
         \<lparr>s_Generation = mem_generation, s_Index = 1, s_Size = 20,
          s_CreatedAt = \<lparr>instant = 6, location = LocUTC\<rparr>\<rparr>], Return None)"
    using S[THEN conjunct2, THEN conjunct1] es by (simp only: fs)
  have r3: "walSegment_entry mem_env mem_generation ?bad = Return None"
    using W[THEN conjunct1, rule_format, of ?bad] by simp
  have r4: "walSegmentIterator_fetch mem_env mem_client mem_generation (LastPage [?bad, ?w])
     = ([\<lparr>w_Generation = mem_generation, w_Index = 1, w_Offset = 4096, w_Size = 20,
          w_CreatedAt = \<lparr>instant = 6, location = LocUTC\<rparr>\<rparr>], Return None)"
    using W[THEN conjunct2, THEN conjunct1] ew by (simp only: fw)
  from r1 r2 r3 r4 show ?thesis by blast
qed

lemma drain_all:
  "itr_err itr = None \<Longrightarrow> \<not> itr_done itr \<Longrightarrow> itr_g itr = Return r \<Longrightarrow>
     drain itr = Return (itr_ch itr,
       itr\<lparr>itr_info := (if itr_ch itr = [] then itr_info itr else last (itr_ch itr)),
           itr_ch := []\<rparr>)"
proof (induction "itr_ch itr" arbitrary: itr)
  case Nil
  then have "Next itr = Return (False, itr)" by (simp add: Next_def)
  with Nil show ?case by (simp add: drain.simps[of itr])
next
  case (Cons info rest)
  let ?itr' = "itr\<lparr>itr_info := info, itr_ch := rest\<rparr>"
  from Cons.hyps(2) Cons.prems have n: "Next itr = Return (True, ?itr')"
    by (simp add: Next_def flip: Cons.hyps(2))
  have "drain ?itr' = Return (itr_ch ?itr',
       ?itr'\<lparr>itr_info := (if itr_ch ?itr' = [] then itr_info ?itr' else last (itr_ch ?itr')),
           itr_ch := []\<rparr>)"
    by (rule Cons.hyps(1)) (use Cons.prems in simp_all)
  with n Cons.hyps(2)[symmetric] show ?case
    by (simp add: drain.simps[of itr])
qed

lemma failed_fetch_iterator:
  assumes "itr_err itr = None" "\<not> itr_done itr" "itr_g itr = Return (Some e)"
  shows "\<exists>itr1. drain itr = Return (itr_ch itr, itr1)
           \<and> Next itr1 = Return (False, itr1)
           \<and> Err itr1 = None
           \<and> Close itr1 = Return (Some e, itr1\<lparr>itr_done := True\<rparr>)
           \<and> Next (itr1\<lparr>itr_done := True\<rparr>) = Return (False, itr1\<lparr>itr_done := True\<rparr>)
           \<and> Err (itr1\<lparr>itr_done := True\<rparr>) = None"
proof -
  define itr1 where "itr1 = itr\<lparr>itr_info := (if itr_ch itr = [] then itr_info itr else last (itr_ch itr)),
           itr_ch := []\<rparr>"
  have d: "drain itr = Return (itr_ch itr, itr1)"
    unfolding itr1_def using assms by (rule drain_all)
  have f: "itr_err itr1 = None" "\<not> itr_done itr1" "itr_g itr1 = Return (Some e)" "itr_ch itr1 = []"
    using assms by (simp_all add: itr1_def)
  have n: "Next itr1 = Return (False, itr1)" using f by (simp add: Next_def)
  have e: "Err itr1 = None" using f by (simp add: Err_def)
  have c: "Close itr1 = Return (Some e, itr1\<lparr>itr_done := True\<rparr>)"
    using f by (simp add: Close_def Let_def)
  have n2: "Next (itr1\<lparr>itr_done := True\<rparr>) = Return (False, itr1\<lparr>itr_done := True\<rparr>)"
    using f by (simp add: Next_def)
  have e2: "Err (itr1\<lparr>itr_done := True\<rparr>) = None" using f by (simp add: Err_def)
  from d n e c n2 e2 show ?thesis by blast
qed

text \<open>
  C1, as the code has it: when the fetch task of a snapshot or WAL-segment iterator ends
  with an error (a listing error, or the path error before the first listing call), the
  consumer receives the entries handed off before, and from then on every \<open>Next\<close> returns
  false and leaves the iterator as it is, because the channel is closed. The error is not
  recorded in the iterator: \<open>Err\<close> returns nil then, and after \<open>Close\<close> too. \<open>Close\<close> returns
  the error, which it takes from the task.
\<close>

theorem fetch_error_surfaces_through_Close:
  "(snapshotIterator_fetch E c g l = (sent, Return (Some e)) \<longrightarrow>
      (\<exists>itr1. drain (newSnapshotIterator E g c l) = Return (sent, itr1)
           \<and> Next itr1 = Return (False, itr1)
           \<and> Err itr1 = None
           \<and> Close itr1 = Return (Some e, itr1\<lparr>itr_done := True\<rparr>)
           \<and> Next (itr1\<lparr>itr_done := True\<rparr>) = Return (False, itr1\<lparr>itr_done := True\<rparr>)
           \<and> Err (itr1\<lparr>itr_done := True\<rparr>) = None))
   \<and> (walSegmentIterator_fetch E c g l = (wsent, Return (Some we)) \<longrightarrow>
      (\<exists>itr1. drain (newWALSegmentIterator E g c l) = Return (wsent, itr1)
           \<and> Next itr1 = Return (False, itr1)
           \<and> Err itr1 = None
           \<and> Close itr1 = Return (Some we, itr1\<lparr>itr_done := True\<rparr>)
           \<and> Next (itr1\<lparr>itr_done := True\<rparr>) = Return (False, itr1\<lparr>itr_done := True\<rparr>)
           \<and> Err (itr1\<lparr>itr_done := True\<rparr>) = None))"
proof (rule conjI; rule impI)
  assume a: "snapshotIterator_fetch E c g l = (sent, Return (Some e))"
  let ?itr = "newSnapshotIterator E g c l"
  have "itr_err ?itr = None" "\<not> itr_done ?itr" "itr_g ?itr = Return (Some e)" "itr_ch ?itr = sent"
    using a by (simp_all add: newSnapshotIterator_def)
  with failed_fetch_iterator[of ?itr e]
  show "\<exists>itr1. drain ?itr = Return (sent, itr1)
           \<and> Next itr1 = Return (False, itr1)
           \<and> Err itr1 = None
           \<and> Close itr1 = Return (Some e, itr1\<lparr>itr_done := True\<rparr>)
           \<and> Next (itr1\<lparr>itr_done := True\<rparr>) = Return (False, itr1\<lparr>itr_done := True\<rparr>)
           \<and> Err (itr1\<lparr>itr_done := True\<rparr>) = None"
    by simp
next
  assume a: "walSegmentIterator_fetch E c g l = (wsent, Return (Some we))"
  let ?itr = "newWALSegmentIterator E g c l"
  have "itr_err ?itr = None" "\<not> itr_done ?itr" "itr_g ?itr = Return (Some we)" "itr_ch ?itr = wsent"
    using a by (simp_all add: newWALSegmentIterator_def)
  with failed_fetch_iterator[of ?itr we]
  show "\<exists>itr1. drain ?itr = Return (wsent, itr1)
           \<and> Next itr1 = Return (False, itr1)
           \<and> Err itr1 = None
           \<and> Close itr1 = Return (Some we, itr1\<lparr>itr_done := True\<rparr>)
           \<and> Next (itr1\<lparr>itr_done := True\<rparr>) = Return (False, itr1\<lparr>itr_done := True\<rparr>)
           \<and> Err (itr1\<lparr>itr_done := True\<rparr>) = None"
    by simp
qed

theorem fetch_error_surfaces_through_Close_witness:
  "snapshotIterator_fetch mem_env mem_client mem_generation
       (Page [\<lparr>Name = ''generations/0123456789abcdef/snapshots/00000000.snapshot.lz4'',
               ContentLength = Some 10, CreationTime = Some \<lparr>instant = 5, location = LocLocal\<rparr>\<rparr>]
          (ListError (OtherError ''listing failed'')))
     = ([\<lparr>s_Generation = mem_generation, s_Index = 0, s_Size = 10,
          s_CreatedAt = \<lparr>instant = 5, location = LocUTC\<rparr>\<rparr>],
        Return (Some (OtherError ''listing failed'')))
   \<and> (\<exists>itr1. drain (newSnapshotIterator mem_env mem_generation mem_client
         (Page [\<lparr>Name = ''generations/0123456789abcdef/snapshots/00000000.snapshot.lz4'',
               ContentLength = Some 10, CreationTime = Some \<lparr>instant = 5, location = LocLocal\<rparr>\<rparr>]
          (ListError (OtherError ''listing failed''))))
        = Return ([\<lparr>s_Generation = mem_generation, s_Index = 0, s_Size = 10,
                    s_CreatedAt = \<lparr>instant = 5, location = LocUTC\<rparr>\<rparr>], itr1)
       \<and> Next itr1 = Return (False, itr1)
       \<and> Err itr1 = None
       \<and> Close itr1 = Return (Some (OtherError ''listing failed''), itr1\<lparr>itr_done := True\<rparr>))
   \<and> walSegmentIterator_fetch mem_env mem_client mem_generation
       (ListError (OtherError ''listing failed''))
     = ([], Return (Some (OtherError ''listing failed'')))
   \<and> (\<exists>itr1. drain (newWALSegmentIterator mem_env mem_generation mem_client
         (ListError (OtherError ''listing failed''))) = Return ([], itr1)
       \<and> Next itr1 = Return (False, itr1)
       \<and> Err itr1 = None
       \<and> Close itr1 = Return (Some (OtherError ''listing failed''), itr1\<lparr>itr_done := True\<rparr>))"
proof -
  let ?a = "\<lparr>Name = ''generations/0123456789abcdef/snapshots/00000000.snapshot.lz4'',
               ContentLength = Some 10, CreationTime = Some \<lparr>instant = 5, location = LocLocal\<rparr>\<rparr>"
  let ?e = "OtherError ''listing failed''"
  let ?ia = "\<lparr>s_Generation = mem_generation, s_Index = 0, s_Size = 10,
          s_CreatedAt = \<lparr>instant = 5, location = LocUTC\<rparr>\<rparr>"
  have hs: "snapshotIterator_fetch mem_env mem_client mem_generation (Page [?a] (ListError ?e))
     = ([?ia], Return (Some ?e))"
    by code_simp
  have hw: "walSegmentIterator_fetch mem_env mem_client mem_generation (ListError ?e)
     = ([], Return (Some ?e))"
    by code_simp
  from fetch_error_surfaces_through_Close[THEN conjunct1, THEN mp, OF hs]
  have s: "\<exists>itr1. drain (newSnapshotIterator mem_env mem_generation mem_client
         (Page [?a] (ListError ?e))) = Return ([?ia], itr1)
       \<and> Next itr1 = Return (False, itr1)
       \<and> Err itr1 = None
       \<and> Close itr1 = Return (Some ?e, itr1\<lparr>itr_done := True\<rparr>)"
    by blast
  from fetch_error_surfaces_through_Close[THEN conjunct2, THEN mp, OF hw]
  have w: "\<exists>itr1. drain (newWALSegmentIterator mem_env mem_generation mem_client
         (ListError ?e)) = Return ([], itr1)
       \<and> Next itr1 = Return (False, itr1)
       \<and> Err itr1 = None
       \<and> Close itr1 = Return (Some ?e, itr1\<lparr>itr_done := True\<rparr>)"
    by blast
  from hs s hw w show ?thesis by (intro conjI)
qed

text \<open>
  The claim C1 as stated asks \<open>Err\<close> to return the listing error once \<open>Next\<close> has returned
  false. On a listing whose first call fails, \<open>Next\<close> returns false and \<open>Err\<close> returns nil.
\<close>

theorem listing_error_not_recorded_counterexample:
  "snapshotIterator_fetch mem_env mem_client mem_generation (ListError (OtherError ''listing failed''))
     = ([], Return (Some (OtherError ''listing failed'')))
   \<and> Next (newSnapshotIterator mem_env mem_generation mem_client
             (ListError (OtherError ''listing failed'')))
     = Return (False, newSnapshotIterator mem_env mem_generation mem_client
             (ListError (OtherError ''listing failed'')))
   \<and> Err (newSnapshotIterator mem_env mem_generation mem_client
             (ListError (OtherError ''listing failed''))) = None
   \<and> Err (newSnapshotIterator mem_env mem_generation mem_client
             (ListError (OtherError ''listing failed''))) \<noteq> Some (OtherError ''listing failed'')"
  by code_simp

subsection \<open>Hexadecimal keys and their order\<close>

lemma below_16: "(d::nat) < 16 \<Longrightarrow> d \<in> {0, 1, 2, 3, 4, 5, 6, 7, 8, 9, 10, 11, 12, 13, 14, 15}"
  by auto arith

lemma hexdigit_code:
  "d < 16 \<Longrightarrow> of_char (hexdigit d) = (if d < 10 then 48 + d else 87 + d :: nat)"
  by (drule below_16) (auto simp: hexdigit_def)

lemma hexdigit_less:
  "d < 16 \<Longrightarrow> d' < 16 \<Longrightarrow> (hexdigit d < hexdigit d') = (d < d')"
  by (auto simp: less_char_def hexdigit_code)

lemma hexdigit_eq:
  assumes "d < 16" "d' < 16"
  shows "(hexdigit d = hexdigit d') = (d = d')"
proof
  assume "hexdigit d = hexdigit d'"
  then have "(of_char (hexdigit d) :: nat) = of_char (hexdigit d')" by simp
  then show "d = d'"
    using assms by (simp add: hexdigit_code split: if_splits)
qed simp

lemma hexval_hexdigit:
  "is_hexdigit c \<Longrightarrow> hexval c < 16 \<and> hexdigit (hexval c) = c"
  by (auto simp: is_hexdigit_def hexval_def hexdigit_def)

lemma length_hex [simp]: "length (hex w n) = w"
  by (induction w arbitrary: n) auto

lemma lex_append_same_length:
  "length a = length b \<Longrightarrow> (a @ x < b @ y) = (a < b \<or> a = b \<and> x < y)"
  by (induction a b rule: list_induct2) auto

lemma lex_append_same_prefix: "(p @ x < p @ y) = (x < (y :: 'a :: linorder list))"
  by (simp add: lex_append_same_length)

lemma digits_less:
  "ra < 16 \<Longrightarrow> rb < 16 \<Longrightarrow>
     ((16 * qa + ra :: nat) < 16 * qb + rb) = (qa < qb \<or> qa = qb \<and> ra < rb)"
  by arith

lemma digits_eq:
  "ra < 16 \<Longrightarrow> rb < 16 \<Longrightarrow>
     ((16 * qa + ra :: nat) = 16 * qb + rb) = (qa = qb \<and> ra = rb)"
  by arith

lemma divmod_16_less:
  "((a::nat) < b) = (a div 16 < b div 16 \<or> a div 16 = b div 16 \<and> a mod 16 < b mod 16)"
  using digits_less[of "a mod 16" "b mod 16" "a div 16" "b div 16"] by simp

lemma divmod_16_eq:
  "((a::nat) = b) = (a div 16 = b div 16 \<and> a mod 16 = b mod 16)"
  using digits_eq[of "a mod 16" "b mod 16" "a div 16" "b div 16"] by simp

lemma hex_order:
  "a < 16 ^ w \<Longrightarrow> b < 16 ^ w \<Longrightarrow>
     (hex w a < hex w b) = (a < b) \<and> (hex w a = hex w b) = (a = b)"
proof (induction w arbitrary: a b)
  case 0
  then show ?case by simp
next
  case (Suc w)
  from Suc.prems have d: "a div 16 < 16 ^ w" "b div 16 < 16 ^ w"
    by (simp_all add: less_mult_imp_div_less mult.commute)
  note IH = Suc.IH[OF d]
  have m: "a mod 16 < 16" "b mod 16 < 16" by simp_all
  have l: "(hex (Suc w) a < hex (Suc w) b) = (a < b)"
    using IH hexdigit_less[OF m] divmod_16_less[of a b]
    by (simp add: lex_append_same_length)
  have e: "(hex (Suc w) a = hex (Suc w) b) = (a = b)"
    using IH hexdigit_eq[OF m] divmod_16_eq[of a b]
    by simp
  from l e show ?case by simp
qed

lemma unhex_snoc: "unhex (ds @ [c]) = 16 * unhex ds + hexval c"
  by (simp add: unhex_def)

lemma hex_unhex:
  "list_all is_hexdigit ds \<Longrightarrow> hex (length ds) (unhex ds) = ds \<and> unhex ds < 16 ^ length ds"
proof (induction ds rule: rev_induct)
  case Nil
  then show ?case by (simp add: unhex_def)
next
  case (snoc c ds)
  then have IH: "hex (length ds) (unhex ds) = ds" "unhex ds < 16 ^ length ds"
    and c: "hexval c < 16" "hexdigit (hexval c) = c"
    by (simp_all add: hexval_hexdigit)
  have "16 * unhex ds + hexval c < 16 * 16 ^ length ds"
    using IH(2) c(1) by simp
  with IH(1) c show ?case
    by (simp add: unhex_snoc)
qed

lemma hex8_unhex:
  assumes "list_all is_hexdigit ds" "length ds = 8"
  shows "hex 8 (unhex ds) = ds" "unhex ds < 16 ^ 8"
  using hex_unhex[OF assms(1)] assms(2) by simp_all

lemma spec_ParseWALSegmentPath_Inr:
  assumes "spec_ParseWALSegmentPath k = Inr (i, ofs)"
  shows "k = spec_FormatWALSegmentPath i ofs \<and> 0 \<le> i \<and> i < 16 ^ 8 \<and> 0 \<le> ofs \<and> ofs < 16 ^ 8"
proof -
  let ?a = "take 8 k" and ?b = "take 8 (drop 9 k)"
  from assms have k: "length k = 25" "list_all is_hexdigit ?a" "take 1 (drop 8 k) = ''_''"
      "list_all is_hexdigit ?b" "drop 17 k = ''.wal.lz4''"
    and io: "i = int (unhex ?a)" "ofs = int (unhex ?b)"
    by (auto simp: spec_ParseWALSegmentPath_def split: if_splits)
  have la: "length ?a = 8" and lb: "length ?b = 8" using k(1) by simp_all
  note a = hex8_unhex[OF k(2) la] and b = hex8_unhex[OF k(4) lb]
  have e1: "?b @ drop 17 k = drop 9 k"
    using append_take_drop_id[of 8 "drop 9 k"] by simp
  have e2: "take 1 (drop 8 k) @ drop 9 k = drop 8 k"
    using append_take_drop_id[of 1 "drop 8 k"] by simp
  have e3: "?a @ drop 8 k = k" by simp
  have "?a @ ''_'' @ ?b @ ''.wal.lz4'' = ?a @ take 1 (drop 8 k) @ ?b @ drop 17 k"
    by (simp only: k(3) k(5))
  also have "\<dots> = k" by (simp only: e1 e2 e3)
  finally have "k = ?a @ ''_'' @ ?b @ ''.wal.lz4''" by (rule sym)
  moreover have "spec_FormatWALSegmentPath i ofs = ?a @ ''_'' @ ?b @ ''.wal.lz4''"
    using a(1) b(1) io by (simp add: spec_FormatWALSegmentPath_def)
  moreover have "i < 16 ^ 8" "ofs < 16 ^ 8" "0 \<le> i" "0 \<le> ofs"
    using a(2) b(2) io by simp_all
  ultimately show ?thesis by simp
qed

lemma spec_FormatWALSegmentPath_less:
  assumes "0 \<le> i1" "i1 < 16 ^ 8" "0 \<le> o1" "o1 < 16 ^ 8"
      and "0 \<le> i2" "i2 < 16 ^ 8" "0 \<le> o2" "o2 < 16 ^ 8"
  shows "(spec_FormatWALSegmentPath i1 o1 < spec_FormatWALSegmentPath i2 o2) = ((i1, o1) < (i2, o2))"
proof -
  have r: "nat i1 < 16 ^ 8" "nat i2 < 16 ^ 8" "nat o1 < 16 ^ 8" "nat o2 < 16 ^ 8"
    using assms by simp_all
  note hi = hex_order[OF r(1) r(2)] and ho = hex_order[OF r(3) r(4)]
  have "(spec_FormatWALSegmentPath i1 o1 < spec_FormatWALSegmentPath i2 o2)
      = (hex 8 (nat i1) < hex 8 (nat i2)
         \<or> hex 8 (nat i1) = hex 8 (nat i2) \<and> hex 8 (nat o1) < hex 8 (nat o2))"
    unfolding spec_FormatWALSegmentPath_def
    by (simp add: lex_append_same_length)
  also have "\<dots> = (nat i1 < nat i2 \<or> nat i1 = nat i2 \<and> nat o1 < nat o2)"
    using hi ho by simp
  also have "\<dots> = ((i1, o1) < (i2, o2))"
    using assms by (auto simp: less_prod_def)
  finally show ?thesis .
qed

lemma spec_FormatWALSegmentPath_eq:
  assumes "0 \<le> i1" "i1 < 16 ^ 8" "0 \<le> o1" "o1 < 16 ^ 8"
      and "0 \<le> i2" "i2 < 16 ^ 8" "0 \<le> o2" "o2 < 16 ^ 8"
  shows "(spec_FormatWALSegmentPath i1 o1 = spec_FormatWALSegmentPath i2 o2) = ((i1, o1) = (i2, o2))"
proof -
  have r: "nat i1 < 16 ^ 8" "nat i2 < 16 ^ 8" "nat o1 < 16 ^ 8" "nat o2 < 16 ^ 8"
    using assms by simp_all
  note hi = hex_order[OF r(1) r(2)] and ho = hex_order[OF r(3) r(4)]
  have "(spec_FormatWALSegmentPath i1 o1 = spec_FormatWALSegmentPath i2 o2)
      = (hex 8 (nat i1) = hex 8 (nat i2) \<and> hex 8 (nat o1) = hex 8 (nat o2))"
    unfolding spec_FormatWALSegmentPath_def by simp
  also have "\<dots> = (nat i1 = nat i2 \<and> nat o1 = nat o2)"
    using hi ho by simp
  also have "\<dots> = ((i1, o1) = (i2, o2))"
    using assms by auto
  finally show ?thesis .
qed

lemma Base_child:
  assumes "k \<noteq> []" "CHR ''/'' \<notin> set k"
  shows "Base (p @ CHR ''/'' # k) = k"
proof -
  obtain x xs where r: "rev k = x # xs" using assms(1) by (cases "rev k") auto
  then have x: "x \<noteq> CHR ''/''" using assms(2)
    by (metis list.set_intros(1) set_rev)
  have all: "\<forall>c\<in>set (rev k). c \<noteq> CHR ''/''" using assms(2) by auto
  have d: "dropWhile (\<lambda>c. c = CHR ''/'') (rev (p @ CHR ''/'' # k)) = rev k @ CHR ''/'' # rev p"
    using r x by simp
  have t: "takeWhile (\<lambda>c. c \<noteq> CHR ''/'') (rev k @ CHR ''/'' # rev p) = rev k"
    using all by (simp add: takeWhile_tail)
  show ?thesis
    using assms(1) by (simp add: Base_def Let_def d t del: rev_append rev.simps append.simps)
qed

subsection \<open>The order of WAL segments\<close>

lemma fetch_items_from:
  "info \<in> set (fst (fetch_items entry items)) \<Longrightarrow>
     \<exists>item\<in>set items. entry item = Return (Some info)"
  by (induction items) (auto split: outcome.splits option.splits prod.splits)

lemma fetch_items_sorted_wrt:
  assumes "\<And>it1 it2 i1 i2. it1 \<in> set items \<Longrightarrow> it2 \<in> set items \<Longrightarrow>
             entry it1 = Return (Some i1) \<Longrightarrow> entry it2 = Return (Some i2) \<Longrightarrow>
             R (Name it1) (Name it2) \<Longrightarrow> R' (key i1) (key i2)"
      and "sorted_wrt R (map Name items)"
  shows "sorted_wrt R' (map key (fst (fetch_items entry items)))"
  using assms
proof (induction items)
  case Nil
  then show ?case by simp
next
  case (Cons it rest)
  have IH: "sorted_wrt R' (map key (fst (fetch_items entry rest)))"
    using Cons.prems by (intro Cons.IH) auto
  show ?case
  proof (cases "entry it")
    case Panic
    then show ?thesis by simp
  next
    case (Return r)
    show ?thesis
    proof (cases r)
      case None
      with Return IH show ?thesis by simp
    next
      case (Some info)
      have "R' (key info) (key i')" if "i' \<in> set (fst (fetch_items entry rest))" for i'
      proof -
        from fetch_items_from[OF that] obtain it' where
          it': "it' \<in> set rest" "entry it' = Return (Some i')" by blast
        from Cons.prems(2) it'(1) have "R (Name it) (Name it')" by auto
        with Cons.prems(1)[of it it' info i'] it' Return Some show ?thesis by simp
      qed
      with Return Some IH show ?thesis
        by (auto split: prod.splits)
    qed
  qed
qed

lemma fetch_items_append:
  "fetch_items entry (xs @ ys) =
     (case fetch_items entry xs of
        (s, True) \<Rightarrow> (s, True)
      | (s, False) \<Rightarrow> (case fetch_items entry ys of (s', p) \<Rightarrow> (s @ s', p)))"
  by (induction xs) (auto split: outcome.splits option.splits prod.splits bool.splits)

lemma fetch_pages_items:
  "fst (fetch_pages entry l) = fst (fetch_items entry (listing_items l))
   \<and> (snd (fetch_pages entry l) = Panic) = snd (fetch_items entry (listing_items l))"
  by (induction l) (auto simp: fetch_items_append split: prod.splits bool.splits)

lemma walSegment_entry_Some:
  "walSegment_entry E g item = Return (Some info) \<Longrightarrow>
     ParseWALSegmentPath E (Base (Name item)) = Inr (w_Index info, w_Offset info)"
  by (auto simp: walSegment_entry_def Let_def split: sum.splits option.splits prod.splits)

lemma walSegment_items_in_order:
  "\<not> snd (fetch_items (walSegment_entry E g) items) \<Longrightarrow>
     map (\<lambda>i. (w_Index i, w_Offset i)) (fst (fetch_items (walSegment_entry E g) items))
       = concat (map (\<lambda>item. case ParseWALSegmentPath E (Base (Name item)) of
                                Inl err \<Rightarrow> [] | Inr p \<Rightarrow> [p]) items)"
proof (induction items)
  case Nil
  then show ?case by simp
next
  case (Cons it rest)
  show ?case
  proof (cases "walSegment_entry E g it")
    case Panic
    with Cons.prems show ?thesis by simp
  next
    case (Return r)
    show ?thesis
    proof (cases r)
      case None
      with Return have "isl (ParseWALSegmentPath E (Base (Name it)))"
        by (auto simp: walSegment_entry_def Let_def split: sum.splits option.splits prod.splits)
      with Cons Return None show ?thesis
        by (auto simp: isl_def)
    next
      case (Some info)
      with Return Cons show ?thesis
        using walSegment_entry_Some[of E g it info]
        by (auto split: prod.splits)
    qed
  qed
qed

lemma wal_name_order:
  assumes P: "ParseWALSegmentPath E = spec_ParseWALSegmentPath"
      and n1: "Name it1 = p @ ''/'' @ k1" "k1 \<noteq> []" "CHR ''/'' \<notin> set k1"
      and n2: "Name it2 = p @ ''/'' @ k2" "k2 \<noteq> []" "CHR ''/'' \<notin> set k2"
      and e1: "walSegment_entry E g it1 = Return (Some i1)"
      and e2: "walSegment_entry E g it2 = Return (Some i2)"
  shows "(Name it1 < Name it2) = ((w_Index i1, w_Offset i1) < (w_Index i2, w_Offset i2))"
    and "(Name it1 = Name it2) = ((w_Index i1, w_Offset i1) = (w_Index i2, w_Offset i2))"
proof -
  from walSegment_entry_Some[OF e1] P n1 have p1: "spec_ParseWALSegmentPath k1 = Inr (w_Index i1, w_Offset i1)"
    by (simp add: Base_child)
  from walSegment_entry_Some[OF e2] P n2 have p2: "spec_ParseWALSegmentPath k2 = Inr (w_Index i2, w_Offset i2)"
    by (simp add: Base_child)
  note f1 = spec_ParseWALSegmentPath_Inr[OF p1] and f2 = spec_ParseWALSegmentPath_Inr[OF p2]
  have "(Name it1 < Name it2) = (k1 < k2)"
    unfolding n1(1) n2(1) by (simp only: lex_append_same_prefix)
  also have "\<dots> = ((w_Index i1, w_Offset i1) < (w_Index i2, w_Offset i2))"
    using f1 f2 spec_FormatWALSegmentPath_less[of "w_Index i1" "w_Offset i1" "w_Index i2" "w_Offset i2"]
    by metis
  finally show "(Name it1 < Name it2) = ((w_Index i1, w_Offset i1) < (w_Index i2, w_Offset i2))" .
  have "(Name it1 = Name it2) = (k1 = k2)"
    unfolding n1(1) n2(1) by simp
  also have "\<dots> = ((w_Index i1, w_Offset i1) = (w_Index i2, w_Offset i2))"
    using f1 f2 spec_FormatWALSegmentPath_eq[of "w_Index i1" "w_Offset i1" "w_Index i2" "w_Offset i2"]
    by metis
  finally show "(Name it1 = Name it2) = ((w_Index i1, w_Offset i1) = (w_Index i2, w_Offset i2))" .
qed

lemma wal_items_sorted:
  assumes P: "ParseWALSegmentPath E = spec_ParseWALSegmentPath"
      and names: "\<forall>item\<in>set items. \<exists>k. Name item = p @ ''/'' @ k \<and> k \<noteq> [] \<and> CHR ''/'' \<notin> set k"
      and srt: "sorted (map Name items)"
  shows "sorted (map (\<lambda>i. (w_Index i, w_Offset i)) (fst (fetch_items (walSegment_entry E g) items)))"
proof (rule fetch_items_sorted_wrt[where R = "(\<le>)", OF _ srt])
  fix it1 it2 i1 i2
  assume a: "it1 \<in> set items" "it2 \<in> set items"
     "walSegment_entry E g it1 = Return (Some i1)" "walSegment_entry E g it2 = Return (Some i2)"
     "Name it1 \<le> Name it2"
  from names a(1) obtain k1 where k1: "Name it1 = p @ ''/'' @ k1" "k1 \<noteq> []" "CHR ''/'' \<notin> set k1"
    by blast
  from names a(2) obtain k2 where k2: "Name it2 = p @ ''/'' @ k2" "k2 \<noteq> []" "CHR ''/'' \<notin> set k2"
    by blast
  note o = wal_name_order[OF P k1 k2 a(3) a(4)]
  from a(5) have "Name it1 < Name it2 \<or> Name it1 = Name it2" by (rule le_imp_less_or_eq)
  with o show "(w_Index i1, w_Offset i1) \<le> (w_Index i2, w_Offset i2)"
    by (metis order.strict_implies_order order_refl)
qed

lemma drain_panic:
  "itr_err itr = None \<Longrightarrow> \<not> itr_done itr \<Longrightarrow> itr_g itr = Panic \<Longrightarrow> drain itr = Panic"
proof (induction "itr_ch itr" arbitrary: itr)
  case Nil
  then have "Next itr = Panic" by (simp add: Next_def)
  then show ?case by (simp add: drain.simps[of itr])
next
  case (Cons info rest)
  let ?itr' = "itr\<lparr>itr_info := info, itr_ch := rest\<rparr>"
  from Cons.hyps(2) Cons.prems have n: "Next itr = Return (True, ?itr')"
    by (simp add: Next_def flip: Cons.hyps(2))
  have "drain ?itr' = Panic"
    by (rule Cons.hyps(1)) (use Cons.prems in simp_all)
  with n show ?case by (simp add: drain.simps[of itr])
qed

lemma drain_sees_channel:
  assumes "itr_err itr = None" "\<not> itr_done itr" "drain itr = Return (seen, itr')"
  shows "seen = itr_ch itr"
proof (cases "itr_g itr")
  case Panic
  with assms drain_panic[of itr] show ?thesis by simp
next
  case (Return r)
  with assms drain_all[of itr r] show ?thesis by simp
qed

text \<open>
  C2, as the code has it: the WAL-segment iterator yields segments in ascending
  (index, offset) order when the listing holds only direct children of one directory (every
  listed name is that directory, a slash, and a non-empty last element without a slash)
  and the store lists them in ascending order of names. Three facts make it so. With the
  path functions of the specification, the listed names that parse are keys rendered from
  an index and an offset below \<open>16 ^ 8\<close>, and for such keys the lexicographic order is the
  order of the pairs (index, offset). The fetch loop hands the parsed entries on in
  listing order. So on such a listing the entries handed off ascend, and so do the
  entries any consumer loop sees.
\<close>

theorem walSegments_ascending:
  "(ParseWALSegmentPath E = spec_ParseWALSegmentPath
      \<and> (\<forall>item\<in>set (listing_items l).
            \<exists>k. Name item = p @ ''/'' @ k \<and> k \<noteq> [] \<and> CHR ''/'' \<notin> set k)
      \<and> sorted (map Name (listing_items l))
    \<longrightarrow> sorted (map (\<lambda>i. (w_Index i, w_Offset i)) (fst (walSegmentIterator_fetch E c g l)))
        \<and> (\<forall>seen itr'. drain (newWALSegmentIterator E g c l) = Return (seen, itr')
              \<longrightarrow> sorted (map (\<lambda>i. (w_Index i, w_Offset i)) seen)))
   \<and> (0 \<le> i1 \<and> i1 < 16 ^ 8 \<and> 0 \<le> o1 \<and> o1 < 16 ^ 8
      \<and> 0 \<le> i2 \<and> i2 < 16 ^ 8 \<and> 0 \<le> o2 \<and> o2 < 16 ^ 8
    \<longrightarrow> (spec_FormatWALSegmentPath i1 o1 < spec_FormatWALSegmentPath i2 o2)
          = ((i1, o1) < (i2, o2)))
   \<and> (WALPath E (path c) g = Inr dir \<and> snd (walSegmentIterator_fetch E c g l) \<noteq> Panic
    \<longrightarrow> map (\<lambda>i. (w_Index i, w_Offset i)) (fst (walSegmentIterator_fetch E c g l))
          = concat (map (\<lambda>item. case ParseWALSegmentPath E (Base (Name item)) of
                                   Inl err \<Rightarrow> [] | Inr p \<Rightarrow> [p]) (listing_items l)))"
proof (intro conjI)
  show "ParseWALSegmentPath E = spec_ParseWALSegmentPath
      \<and> (\<forall>item\<in>set (listing_items l).
            \<exists>k. Name item = p @ ''/'' @ k \<and> k \<noteq> [] \<and> CHR ''/'' \<notin> set k)
      \<and> sorted (map Name (listing_items l))
    \<longrightarrow> sorted (map (\<lambda>i. (w_Index i, w_Offset i)) (fst (walSegmentIterator_fetch E c g l)))
        \<and> (\<forall>seen itr'. drain (newWALSegmentIterator E g c l) = Return (seen, itr')
              \<longrightarrow> sorted (map (\<lambda>i. (w_Index i, w_Offset i)) seen))"
  proof
    assume a: "ParseWALSegmentPath E = spec_ParseWALSegmentPath
      \<and> (\<forall>item\<in>set (listing_items l).
            \<exists>k. Name item = p @ ''/'' @ k \<and> k \<noteq> [] \<and> CHR ''/'' \<notin> set k)
      \<and> sorted (map Name (listing_items l))"
    then have "sorted (map (\<lambda>i. (w_Index i, w_Offset i))
        (fst (fetch_items (walSegment_entry E g) (listing_items l))))"
      by (intro wal_items_sorted[of E _ p]) simp_all
    then have p: "sorted (map (\<lambda>i. (w_Index i, w_Offset i)) (fst (fetch_pages (walSegment_entry E g) l)))"
      by (simp add: fetch_pages_items)
    have s: "sorted (map (\<lambda>i. (w_Index i, w_Offset i)) (fst (walSegmentIterator_fetch E c g l)))"
      using p by (simp add: walSegmentIterator_fetch_def split: sum.splits option.splits)
    have "sorted (map (\<lambda>i. (w_Index i, w_Offset i)) seen)"
      if "drain (newWALSegmentIterator E g c l) = Return (seen, itr')" for seen itr'
    proof -
      let ?itr = "newWALSegmentIterator E g c l"
      have "itr_err ?itr = None" "\<not> itr_done ?itr"
          "itr_ch ?itr = fst (walSegmentIterator_fetch E c g l)"
        by (simp_all add: newWALSegmentIterator_def split: prod.splits)
      with drain_sees_channel[OF _ _ that] s show ?thesis by simp
    qed
    with s show "sorted (map (\<lambda>i. (w_Index i, w_Offset i)) (fst (walSegmentIterator_fetch E c g l)))
        \<and> (\<forall>seen itr'. drain (newWALSegmentIterator E g c l) = Return (seen, itr')
              \<longrightarrow> sorted (map (\<lambda>i. (w_Index i, w_Offset i)) seen))"
      by blast
  qed
next
  show "0 \<le> i1 \<and> i1 < 16 ^ 8 \<and> 0 \<le> o1 \<and> o1 < 16 ^ 8
      \<and> 0 \<le> i2 \<and> i2 < 16 ^ 8 \<and> 0 \<le> o2 \<and> o2 < 16 ^ 8
    \<longrightarrow> (spec_FormatWALSegmentPath i1 o1 < spec_FormatWALSegmentPath i2 o2)
          = ((i1, o1) < (i2, o2))"
    using spec_FormatWALSegmentPath_less[of i1 o1 i2 o2] by blast
next
  show "WALPath E (path c) g = Inr dir \<and> snd (walSegmentIterator_fetch E c g l) \<noteq> Panic
    \<longrightarrow> map (\<lambda>i. (w_Index i, w_Offset i)) (fst (walSegmentIterator_fetch E c g l))
          = concat (map (\<lambda>item. case ParseWALSegmentPath E (Base (Name item)) of
                                   Inl err \<Rightarrow> [] | Inr p \<Rightarrow> [p]) (listing_items l))"
  proof
    assume a: "WALPath E (path c) g = Inr dir \<and> snd (walSegmentIterator_fetch E c g l) \<noteq> Panic"
    then have f: "walSegmentIterator_fetch E c g l = fetch_pages (walSegment_entry E g) l"
      by (auto simp: walSegmentIterator_fetch_def split: option.splits)
    with a have "\<not> snd (fetch_items (walSegment_entry E g) (listing_items l))"
      using fetch_pages_items[of "walSegment_entry E g" l] by simp
    from walSegment_items_in_order[OF this] f
    show "map (\<lambda>i. (w_Index i, w_Offset i)) (fst (walSegmentIterator_fetch E c g l))
          = concat (map (\<lambda>item. case ParseWALSegmentPath E (Base (Name item)) of
                                   Inl err \<Rightarrow> [] | Inr p \<Rightarrow> [p]) (listing_items l))"
      by (simp add: fetch_pages_items)
  qed
qed

theorem walSegments_ascending_witness:
  "sorted (map Name
       [\<lparr>Name = ''generations/0123456789abcdef/wal/00000000_00000000.wal.lz4'',
         ContentLength = Some 1, CreationTime = Some \<lparr>instant = 1, location = LocLocal\<rparr>\<rparr>,
        \<lparr>Name = ''generations/0123456789abcdef/wal/00000000_00001000.wal.lz4'',
         ContentLength = Some 2, CreationTime = Some \<lparr>instant = 2, location = LocLocal\<rparr>\<rparr>,
        \<lparr>Name = ''generations/0123456789abcdef/wal/00000001_00000000.wal.lz4'',
         ContentLength = Some 3, CreationTime = Some \<lparr>instant = 3, location = LocLocal\<rparr>\<rparr>])
   \<and> map (\<lambda>i. (w_Index i, w_Offset i))
       (fst (walSegmentIterator_fetch mem_env mem_client mem_generation
         (Page
           [\<lparr>Name = ''generations/0123456789abcdef/wal/00000000_00000000.wal.lz4'',
             ContentLength = Some 1, CreationTime = Some \<lparr>instant = 1, location = LocLocal\<rparr>\<rparr>,
            \<lparr>Name = ''generations/0123456789abcdef/wal/00000000_00001000.wal.lz4'',
             ContentLength = Some 2, CreationTime = Some \<lparr>instant = 2, location = LocLocal\<rparr>\<rparr>]
           (LastPage
             [\<lparr>Name = ''generations/0123456789abcdef/wal/00000001_00000000.wal.lz4'',
               ContentLength = Some 3, CreationTime = Some \<lparr>instant = 3, location = LocLocal\<rparr>\<rparr>]))))
     = [(0, 0), (0, 4096), (1, 0)]
   \<and> sorted (map (\<lambda>i. (w_Index i, w_Offset i))
       (fst (walSegmentIterator_fetch mem_env mem_client mem_generation
         (Page
           [\<lparr>Name = ''generations/0123456789abcdef/wal/00000000_00000000.wal.lz4'',
             ContentLength = Some 1, CreationTime = Some \<lparr>instant = 1, location = LocLocal\<rparr>\<rparr>,
            \<lparr>Name = ''generations/0123456789abcdef/wal/00000000_00001000.wal.lz4'',
             ContentLength = Some 2, CreationTime = Some \<lparr>instant = 2, location = LocLocal\<rparr>\<rparr>]
           (LastPage
             [\<lparr>Name = ''generations/0123456789abcdef/wal/00000001_00000000.wal.lz4'',
               ContentLength = Some 3, CreationTime = Some \<lparr>instant = 3, location = LocLocal\<rparr>\<rparr>])))))
   \<and> spec_FormatWALSegmentPath 0 4096 < spec_FormatWALSegmentPath 1 0"
proof -
  let ?a = "\<lparr>Name = ''generations/0123456789abcdef/wal/00000000_00000000.wal.lz4'',
             ContentLength = Some 1, CreationTime = Some \<lparr>instant = 1, location = LocLocal\<rparr>\<rparr>"
  let ?b = "\<lparr>Name = ''generations/0123456789abcdef/wal/00000000_00001000.wal.lz4'',
             ContentLength = Some 2, CreationTime = Some \<lparr>instant = 2, location = LocLocal\<rparr>\<rparr>"
  let ?c = "\<lparr>Name = ''generations/0123456789abcdef/wal/00000001_00000000.wal.lz4'',
             ContentLength = Some 3, CreationTime = Some \<lparr>instant = 3, location = LocLocal\<rparr>\<rparr>"
  let ?l = "Page [?a, ?b] (LastPage [?c])"
  let ?p = "''generations/0123456789abcdef/wal''"
  have P: "ParseWALSegmentPath mem_env = spec_ParseWALSegmentPath"
    by (simp add: mem_env_def)
  have na: "\<exists>k. Name ?a = ?p @ ''/'' @ k \<and> k \<noteq> [] \<and> CHR ''/'' \<notin> set k"
    by (rule exI[of _ "''00000000_00000000.wal.lz4''"]) simp
  have nb: "\<exists>k. Name ?b = ?p @ ''/'' @ k \<and> k \<noteq> [] \<and> CHR ''/'' \<notin> set k"
    by (rule exI[of _ "''00000000_00001000.wal.lz4''"]) simp
  have nc: "\<exists>k. Name ?c = ?p @ ''/'' @ k \<and> k \<noteq> [] \<and> CHR ''/'' \<notin> set k"
    by (rule exI[of _ "''00000001_00000000.wal.lz4''"]) simp
  have li: "listing_items ?l = [?a, ?b, ?c]" by simp
  have names: "\<forall>item\<in>set (listing_items ?l).
            \<exists>k. Name item = ?p @ ''/'' @ k \<and> k \<noteq> [] \<and> CHR ''/'' \<notin> set k"
    unfolding li using na nb nc by (simp only: list.set ball_simps insert_iff empty_iff simp_thms) 
  have srt0: "sorted (map Name [?a, ?b, ?c])" by code_simp
  have srt: "sorted (map Name (listing_items ?l))" unfolding li by (rule srt0)
  have ev: "map (\<lambda>i. (w_Index i, w_Offset i))
       (fst (walSegmentIterator_fetch mem_env mem_client mem_generation ?l))
     = [(0, 0), (0, 4096), (1, 0)]"
    by code_simp
  note T = walSegments_ascending[of mem_env ?l ?p mem_client mem_generation 0 4096 1 0]
  have r1: "sorted (map (\<lambda>i. (w_Index i, w_Offset i))
       (fst (walSegmentIterator_fetch mem_env mem_client mem_generation ?l)))"
    using T[THEN conjunct1, THEN mp, OF conjI[OF P conjI[OF names srt]], THEN conjunct1] .
  have "((0::int, 4096::int) < (1, 0))" by simp
  then have r2: "spec_FormatWALSegmentPath 0 4096 < spec_FormatWALSegmentPath 1 0"
    using T[THEN conjunct2, THEN conjunct1] by simp
  from srt0 ev r1 r2 show ?thesis by (intro conjI)
qed

text \<open>
  The claim C2 as stated has no proviso on the listed names. The listing is flat, and the
  loop parses \<open>path.Base\<close> of each name, so a key nested below the WAL directory is parsed
  by its last element: the listing below ascends by name, and the iterator yields index 5
  before index 1.
\<close>

theorem walSegments_nested_key_counterexample:
  "sorted (map Name
       [\<lparr>Name = ''generations/0123456789abcdef/wal/00000005_00000000.wal.lz4'',
         ContentLength = Some 1, CreationTime = Some \<lparr>instant = 1, location = LocLocal\<rparr>\<rparr>,
        \<lparr>Name = ''generations/0123456789abcdef/wal/backup/00000001_00000000.wal.lz4'',
         ContentLength = Some 2, CreationTime = Some \<lparr>instant = 2, location = LocLocal\<rparr>\<rparr>])
   \<and> walSegmentIterator_fetch mem_env mem_client mem_generation
       (LastPage
         [\<lparr>Name = ''generations/0123456789abcdef/wal/00000005_00000000.wal.lz4'',
           ContentLength = Some 1, CreationTime = Some \<lparr>instant = 1, location = LocLocal\<rparr>\<rparr>,
          \<lparr>Name = ''generations/0123456789abcdef/wal/backup/00000001_00000000.wal.lz4'',
           ContentLength = Some 2, CreationTime = Some \<lparr>instant = 2, location = LocLocal\<rparr>\<rparr>])
     = ([\<lparr>w_Generation = mem_generation, w_Index = 5, w_Offset = 0, w_Size = 1,
          w_CreatedAt = \<lparr>instant = 1, location = LocUTC\<rparr>\<rparr>,
         \<lparr>w_Generation = mem_generation, w_Index = 1, w_Offset = 0, w_Size = 2,
          w_CreatedAt = \<lparr>instant = 2, location = LocUTC\<rparr>\<rparr>], Return None)
   \<and> \<not> sorted (map (\<lambda>i. (w_Index i, w_Offset i))
       (fst (walSegmentIterator_fetch mem_env mem_client mem_generation
         (LastPage
           [\<lparr>Name = ''generations/0123456789abcdef/wal/00000005_00000000.wal.lz4'',
             ContentLength = Some 1, CreationTime = Some \<lparr>instant = 1, location = LocLocal\<rparr>\<rparr>,
            \<lparr>Name = ''generations/0123456789abcdef/wal/backup/00000001_00000000.wal.lz4'',
             ContentLength = Some 2,
             CreationTime = Some \<lparr>instant = 2, location = LocLocal\<rparr>\<rparr>]))))"
  by code_simp

end
